theory Spec2Isabelle
  imports Complex_Main
begin

section \<open>The wallet session of FeedLoop (class Web3ManagerStable, src/js/config.js)\<close>

text \<open>
  The class \<open>Web3ManagerStable\<close> keeps the connection state of a wallet, a counter of
  connection attempts, a demo-mode flag and a log of reward transactions. Its methods are
  embedded below as functions on a record of the object's fields. Everything a method
  does to the world outside the object (a console line, a call of \<open>showNotification\<close>,
  a request to \<open>window.ethereum\<close>, a write to \<open>UTILS.storage\<close>, a timer, a call of one
  of the DOM-painting methods \<open>updateUI\<close>, \<open>updateConnectingUI\<close>, \<open>updateBalanceUI\<close>)
  is appended, in program order, to the field \<open>out\<close>. Everything a method reads from the
  world (whether \<open>window.ethereum\<close>, \<open>UTILS.storage\<close> and \<open>showNotification\<close> exist,
  the stored contributions, the clock, the random generator, the replies of the wallet
  provider) is an argument.

  Conventions of the embedding:
  \<^item> message texts are written without the emoji that starts them in the source, and a
    console line is its first argument only;
  \<^item> a JavaScript number that is a count or a time is a \<open>nat\<close>; an amount of the reward
    currency is a \<open>rat\<close>, so \<open>0.01\<close> is \<open>1 / 100\<close> (the source computes with IEEE doubles
    and prints with \<open>toFixed(3)\<close>; on the products \<open>n * 0.01\<close> of an array length \<open>n\<close> the
    printed digits are those of the exact decimal);
  \<^item> an account list that is \<open>null\<close> is written \<open>[]\<close>: each test of the source
    (\<open>!accounts || accounts.length === 0\<close>, \<open>accounts && accounts.length > 0\<close>) treats
    the two alike;
  \<^item> an \<open>async\<close> method runs up to its first pending \<open>await\<close> when it is called; a method
    that waits for the provider or for a timer is given as the part before the wait and
    the part after it.
\<close>

subsection \<open>Data\<close>

type_synonym address = string

text \<open>The object literals built by \<open>simulateReward\<close>, \<open>sendDemoReward\<close>, \<open>trackReward\<close>.
  The property \<open>demo\<close> is present (and \<open>true\<close>) in demo transactions only; \<open>to\<close> is the
  caller's \<open>recipientAddress\<close>, which is \<open>None\<close> when the caller passes \<open>null\<close>.\<close>

record transaction =
  hash :: string
  sender :: address
  recipient :: "address option"
  amount :: rat
  timestamp :: nat
  status :: string
  kind :: string
  demo :: bool

text \<open>A template literal that interpolates an amount: the text pieces and the numbers.\<close>

datatype part = Str string | Num rat

datatype timer_action = DemoModeNotice | LoadDemoBalance | LoadBalance

datatype effect =
    Log string
  | Notification "part list" string nat
  | UpdateUI
  | UpdateConnectingUI
  | UpdateBalanceUI string string
  | ProviderRequest string
  | StorageSet string "transaction list"
  | SetTimeout nat timer_action
  | ClearTimeout nat

text \<open>The fields that the constructor of \<open>Web3ManagerStable\<close> sets, and the trace \<open>out\<close>.
  \<open>web3\<close> tells whether \<open>this.web3\<close> holds a Web3 object; \<open>initializationTimeout\<close> is
  the timer handle.\<close>

record session =
  web3 :: bool
  account :: "address option"
  isConnected :: bool
  isConnecting :: bool
  isInitialized :: bool
  enabled :: bool
  demoMode :: bool
  rewardPoolAddress :: address
  transactionHistory :: "transaction list"
  connectionAttempts :: nat
  maxConnectionAttempts :: nat
  eventListenersSetup :: bool
  initializationTimeout :: "nat option"
  out :: "effect list"

text \<open>\<open>window.ethereum\<close> and its two flags read by \<open>isMetaMaskAvailable\<close>.\<close>

record ethereum =
  isMetaMask :: bool
  providerConnecting :: bool

text \<open>The arrays that \<open>UTILS.storage.getFeedbacks()\<close> and \<open>getReports()\<close> return
  (entries are named by their ids).\<close>

record storage =
  feedbacks :: "string list"
  reports :: "string list"

record env =
  windowEthereum :: "ethereum option"
  utilsStorage :: "storage option"
  hasShowNotification :: bool

text \<open>What \<open>Date.now()\<close> (called for the hash, then for the timestamp) and
  \<open>Math.random().toString(36)\<close> return during one reward.\<close>

record entropy =
  hashTime :: nat
  randomText :: string
  stampTime :: nat

subsection \<open>The constructor\<close>

definition new_session :: session where
  "new_session =
     \<lparr> web3 = False, account = None, isConnected = False, isConnecting = False,
       isInitialized = False, enabled = True, demoMode = False,
       rewardPoolAddress = ''0x694B31c92E618d24D254bb10e7BF22a4a3C1151b'',
       transactionHistory = [], connectionAttempts = 0, maxConnectionAttempts = 3,
       eventListenersSetup = False, initializationTimeout = None, out = [] \<rparr>"

subsection \<open>Effects\<close>

definition emit :: "effect \<Rightarrow> session \<Rightarrow> session" where
  "emit e s = s\<lparr>out := out s @ [e]\<rparr>"

text \<open>\<open>if (typeof showNotification === 'function') showNotification(message, type, duration)\<close>\<close>

definition notify :: "env \<Rightarrow> part list \<Rightarrow> string \<Rightarrow> nat \<Rightarrow> session \<Rightarrow> session" where
  "notify e msg ty dur s =
     (if hasShowNotification e then emit (Notification msg ty dur) s else s)"

subsection \<open>Strings and numbers\<close>

text \<open>The decimal digits of a non-negative integer, as a template literal prints it.\<close>

fun show_nat :: "nat \<Rightarrow> string" where
  "show_nat n =
     (if n < 10 then [char_of (48 + n)]
      else show_nat (n div 10) @ [char_of (48 + n mod 10)])"

declare show_nat.simps [simp del]

text \<open>\<open>str.substr(start, length)\<close> for a non-negative \<open>start\<close>.\<close>

definition substr :: "nat \<Rightarrow> nat \<Rightarrow> string \<Rightarrow> string" where
  "substr start len str = take len (drop start str)"

text \<open>\<open>x.toFixed(3)\<close>: the integer \<open>k\<close> nearest to \<open>1000 * |x|\<close> (the larger one on a tie),
  printed with three digits after the point, after a minus sign when \<open>x < 0\<close>.\<close>

definition toFixed3 :: "rat \<Rightarrow> string" where
  "toFixed3 x =
     (let k = nat \<lfloor>\<bar>x\<bar> * 1000 + 1 / 2\<rfloor>;
          f = k mod 1000;
          digits = show_nat (k div 1000) @ ''.'' @
                   [char_of (48 + f div 100), char_of (48 + f div 10 mod 10),
                    char_of (48 + f mod 10)]
      in if x < 0 then ''-'' @ digits else digits)"

subsection \<open>Painting methods\<close>

text \<open>\<open>updateUI\<close>, \<open>updateConnectingUI\<close> and \<open>updateBalanceUI\<close> only write to DOM elements;
  a call is one entry of the trace. \<open>createDemoInterface\<close> prints one console line.\<close>

definition updateUI :: "session \<Rightarrow> session" where
  "updateUI s = emit UpdateUI s"

definition updateConnectingUI :: "session \<Rightarrow> session" where
  "updateConnectingUI s = emit UpdateConnectingUI s"

definition updateBalanceUI :: "string \<Rightarrow> string \<Rightarrow> session \<Rightarrow> session" where
  "updateBalanceUI nativeBalance shmBalance s = emit (UpdateBalanceUI nativeBalance shmBalance) s"

definition createDemoInterface :: "session \<Rightarrow> session" where
  "createDemoInterface s = emit (Log ''Demo interface ready'') s"

subsection \<open>Balance\<close>

text \<open>\<open>getUserContributionCount\<close>: the two array lengths added, or 0 without
  \<open>UTILS.storage\<close>.\<close>

definition getUserContributionCount :: "env \<Rightarrow> nat" where
  "getUserContributionCount e =
     (case utilsStorage e of
        None \<Rightarrow> 0
      | Some st \<Rightarrow> length (feedbacks st) + length (reports st))"

definition loadDemoBalance :: "env \<Rightarrow> session \<Rightarrow> session" where
  "loadDemoBalance e s =
     (let userContributions = getUserContributionCount e;
          shmBalance = toFixed3 (123 / 1000 + of_nat userContributions * (1 / 100))
      in updateBalanceUI ''2.456'' shmBalance s)"

text \<open>\<open>loadBalance\<close>; \<open>!this.account\<close> holds for \<open>null\<close> and for the empty string.\<close>

definition loadBalance :: "env \<Rightarrow> session \<Rightarrow> session" where
  "loadBalance e s =
     (if demoMode s then loadDemoBalance e s
      else if account s = None \<or> account s = Some [] \<or> \<not> web3 s then s
      else let userContributions = getUserContributionCount e;
               shmBalance = toFixed3 (of_nat userContributions * (1 / 100))
           in updateBalanceUI ''0.000'' shmBalance s)"

subsection \<open>Connecting\<close>

definition isMetaMaskAvailable :: "env \<Rightarrow> bool" where
  "isMetaMaskAvailable e =
     (case windowEthereum e of
        None \<Rightarrow> False
      | Some eth \<Rightarrow> isMetaMask eth \<and> \<not> providerConnecting eth)"

text \<open>\<open>enableDemoMode\<close>. The notification it announces is sent by a timer two seconds
  later.\<close>

definition enableDemoMode :: "session \<Rightarrow> session" where
  "enableDemoMode s =
     (let s1 = s\<lparr>demoMode := True, isInitialized := True, isConnecting := False\<rparr>;
          s2 = (case initializationTimeout s1 of
                  None \<Rightarrow> s1
                | Some h \<Rightarrow> emit (ClearTimeout h) s1);
          s3 = emit (Log ''Demo mode enabled'') s2;
          s4 = createDemoInterface s3;
          s5 = updateUI s4
      in emit (SetTimeout 2000 DemoModeNotice) s5)"

text \<open>An exception value: its message and its \<open>code\<close> property, if it has one. A reply of
  the provider to a request: the promise resolves or rejects.\<close>

datatype js_error = JsError (message: string) (code: "int option")

datatype 'a reply = Resolve 'a | Reject js_error

text \<open>The replies \<open>window.ethereum.request\<close> gives during one call of \<open>connectWallet\<close>, by
  method: \<open>eth_requestAccounts\<close>, \<open>eth_chainId\<close>, \<open>wallet_switchEthereumChain\<close>,
  \<open>wallet_addEthereumChain\<close>.\<close>

record provider =
  requestAccounts :: "address list reply"
  chainId :: "string reply"
  switchChain :: "unit reply"
  addChain :: "unit reply"

text \<open>Where an \<open>async\<close> method stands when control returns to the event loop: it has
  returned a value, or it waits for the provider's accounts, or for the 1500 ms timer of the
  demo wallet.\<close>

datatype wait = RequestAccounts | DemoDelay

datatype 'a outcome = Returned 'a | Awaiting wait

text \<open>\<open>switchNetwork\<close> and \<open>ensureCorrectNetwork\<close>, with
  \<open>CONFIG.BLOCKCHAIN.NETWORK.chainId = '0x89'\<close>. Both catch every exception.\<close>

definition switchNetwork :: "provider \<Rightarrow> session \<Rightarrow> session" where
  "switchNetwork p s =
     (let s1 = emit (ProviderRequest ''wallet_switchEthereumChain'') s
      in case switchChain p of
           Resolve _ \<Rightarrow> emit (Log ''Network switched successfully'') s1
         | Reject switchError \<Rightarrow>
             if code switchError = Some 4902
             then (let s2 = emit (ProviderRequest ''wallet_addEthereumChain'') s1
                   in case addChain p of
                        Resolve _ \<Rightarrow> emit (Log ''Network added successfully'') s2
                      | Reject addError \<Rightarrow> emit (Log ''Error adding network:'') s2)
             else s1)"

definition ensureCorrectNetwork :: "env \<Rightarrow> provider \<Rightarrow> session \<Rightarrow> session" where
  "ensureCorrectNetwork e p s =
     (if demoMode s \<or> windowEthereum e = None then s
      else let s1 = emit (ProviderRequest ''eth_chainId'') s
           in case chainId p of
                Resolve c \<Rightarrow>
                  if c \<noteq> ''0x89''
                  then switchNetwork p (emit (Log ''Switching to correct network...'') s1)
                  else s1
              | Reject err \<Rightarrow> emit (Log ''Network check error:'') s1)"

text \<open>The \<open>finally\<close> block of \<open>connectWallet\<close>.\<close>

definition connectWallet_finally :: "session \<Rightarrow> session" where
  "connectWallet_finally s =
     (let s1 = s\<lparr>isConnecting := False\<rparr>
      in if \<not> demoMode s1 then updateUI s1 else s1)"

text \<open>The \<open>catch\<close> block of \<open>connectWallet\<close>, followed by the \<open>finally\<close> block: the call
  returns \<open>false\<close>.\<close>

definition connectWallet_catch :: "env \<Rightarrow> js_error \<Rightarrow> session \<Rightarrow> bool \<times> session" where
  "connectWallet_catch e err s =
     (let s1 = emit (Log ''Wallet connection error:'') s;
          s2 = (if code err = Some 4001
                then notify e [Str ''Connection rejected by user''] ''warning'' 5000 s1
                else if connectionAttempts s1 \<ge> maxConnectionAttempts s1
                then enableDemoMode
                       (notify e [Str ''Connection failed, switching to demo mode''] ''error'' 5000 s1)
                else notify e [Str ''Connection failed, please try again''] ''error'' 5000 s1)
      in (False, connectWallet_finally s2))"

text \<open>\<open>connectDemoWallet\<close> up to \<open>await new Promise(resolve => setTimeout(resolve, 1500))\<close>,
  and from there to its end (\<open>try\<close> body, then \<open>finally\<close>).\<close>

definition connectDemoWallet_start :: "env \<Rightarrow> session \<Rightarrow> bool outcome \<times> session" where
  "connectDemoWallet_start e s =
     (if isConnecting s then (Returned False, s)
      else let s1 = s\<lparr>isConnecting := True\<rparr>;
               s2 = emit (Log ''Connecting demo wallet...'') s1;
               s3 = updateConnectingUI s2;
               s4 = notify e [Str ''Connecting demo wallet...''] ''info'' 2000 s3
           in (Awaiting DemoDelay, s4))"

definition connectDemoWallet_resume :: "env \<Rightarrow> session \<Rightarrow> bool \<times> session" where
  "connectDemoWallet_resume e s =
     (let s1 = s\<lparr>account := Some ''0x742d35Cc6634C0532925a3b8D98d27f65d3c3eA6'',
                 isConnected := True\<rparr>;
          s2 = updateUI s1;
          s3 = loadDemoBalance e s2;
          s4 = notify e [Str ''Demo wallet connected! Submit content to earn rewards!'']
                 ''success'' 5000 s3
      in (True, s4\<lparr>isConnecting := False\<rparr>))"

text \<open>\<open>connectWallet\<close> up to \<open>await window.ethereum.request({method: 'eth_requestAccounts'})\<close>.
  The guards return at once; a missing MetaMask throws into the \<open>catch\<close> block before
  anything is shown or requested.\<close>

definition connectWallet_start :: "env \<Rightarrow> session \<Rightarrow> bool outcome \<times> session" where
  "connectWallet_start e s =
     (if isConnecting s
      then (Returned False, emit (Log ''Connection already in progress...'') s)
      else if demoMode s then connectDemoWallet_start e s
      else if connectionAttempts s \<ge> maxConnectionAttempts s
      then (Returned False,
            enableDemoMode
              (emit (Log ''Maximum connection attempts reached, using demo mode'') s))
      else let s1 = s\<lparr>isConnecting := True, connectionAttempts := connectionAttempts s + 1\<rparr>;
               s2 = emit (Log (''Connecting to MetaMask (attempt '' @
                               show_nat (connectionAttempts s1) @ ''/'' @
                               show_nat (maxConnectionAttempts s1) @ '')...'')) s1
           in if \<not> isMetaMaskAvailable e
              then (case connectWallet_catch e (JsError ''MetaMask not available'' None) s2 of
                      (r, s3) \<Rightarrow> (Returned r, s3))
              else (Awaiting RequestAccounts,
                    emit (ProviderRequest ''eth_requestAccounts'') (updateConnectingUI s2)))"

text \<open>\<open>connectWallet\<close> from the provider's reply to its end. The requests of
  \<open>ensureCorrectNetwork\<close> are answered from \<open>p\<close> within this step.\<close>

definition connectWallet_resume :: "env \<Rightarrow> provider \<Rightarrow> session \<Rightarrow> bool \<times> session" where
  "connectWallet_resume e p s =
     (case requestAccounts p of
        Reject err \<Rightarrow> connectWallet_catch e err s
      | Resolve [] \<Rightarrow> connectWallet_catch e (JsError ''No accounts returned'' None) s
      | Resolve (a # _) \<Rightarrow>
          (let s1 = s\<lparr>account := Some a, isConnected := True, connectionAttempts := 0\<rparr>;
               s2 = emit (Log ''Wallet connected:'') s1;
               s3 = ensureCorrectNetwork e p s2;
               s4 = updateUI s3;
               s5 = loadBalance e s4;
               s6 = notify e [Str ''Wallet connected successfully!''] ''success'' 4000 s5
           in (True, connectWallet_finally s6)))"

text \<open>A call of \<open>connectWallet\<close> that nothing interrupts: the part before the wait, then
  the part after it.\<close>

definition connectWallet :: "env \<Rightarrow> provider \<Rightarrow> session \<Rightarrow> bool \<times> session" where
  "connectWallet e p s =
     (case connectWallet_start e s of
        (Returned r, s1) \<Rightarrow> (r, s1)
      | (Awaiting RequestAccounts, s1) \<Rightarrow> connectWallet_resume e p s1
      | (Awaiting DemoDelay, s1) \<Rightarrow> connectDemoWallet_resume e s1)"

subsection \<open>Disconnecting and provider events\<close>

definition disconnectWallet :: "env \<Rightarrow> session \<Rightarrow> session" where
  "disconnectWallet e s =
     (if isConnecting s then emit (Log ''Cannot disconnect while connecting'') s
      else let s1 = emit (Log ''Disconnecting wallet...'') s;
               s2 = s1\<lparr>account := None, isConnected := False, connectionAttempts := 0\<rparr>;
               s3 = updateUI s2;
               walletType = (if demoMode s3 then ''Demo wallet'' else ''Wallet'')
           in notify e [Str (walletType @ '' disconnected'')] ''info'' 5000 s3)"

definition handleAccountsChanged :: "env \<Rightarrow> address list \<Rightarrow> session \<Rightarrow> session" where
  "handleAccountsChanged e accounts s =
     (if isConnecting s then emit (Log ''Ignoring account change during connection'') s
      else let s1 = emit (Log ''Handling account change...'') s
           in case accounts of
                [] \<Rightarrow>
                  if isConnected s1
                  then disconnectWallet e (emit (Log ''No accounts, disconnecting'') s1)
                  else s1
              | newAccount # _ \<Rightarrow>
                  if account s1 \<noteq> Some newAccount
                  then (let s2 = emit (Log ''Account switched to:'') s1;
                            s3 = s2\<lparr>account := Some newAccount, isConnected := True\<rparr>;
                            s4 = updateUI s3
                        in loadBalance e s4)
                  else s1)"

definition handleDisconnect :: "env \<Rightarrow> session \<Rightarrow> session" where
  "handleDisconnect e s =
     (if \<not> isConnecting s
      then disconnectWallet e (emit (Log ''Handling disconnect...'') s)
      else s)"

subsection \<open>The transaction log\<close>

text \<open>\<open>recordTransaction\<close>: \<open>unshift\<close> puts the record in front; a log longer than 50 is cut
  to \<open>slice(0, 50)\<close>; the log is written to the store when \<open>UTILS.storage\<close> exists.\<close>

definition recordTransaction :: "env \<Rightarrow> transaction \<Rightarrow> session \<Rightarrow> session" where
  "recordTransaction e t s =
     (let h = t # transactionHistory s;
          h' = (if length h > 50 then take 50 h else h);
          s' = s\<lparr>transactionHistory := h'\<rparr>
      in if utilsStorage e \<noteq> None then emit (StorageSet ''transaction_history'' h') s' else s')"

text \<open>A sequence of calls of \<open>recordTransaction\<close>, first element first, each in the
  environment it finds.\<close>

fun recordAll :: "(env \<times> transaction) list \<Rightarrow> session \<Rightarrow> session" where
  "recordAll [] s = s"
| "recordAll ((e, t) # cs) s = recordAll cs (recordTransaction e t s)"

subsection \<open>Rewards\<close>

definition simulateReward :: "env \<Rightarrow> entropy \<Rightarrow> rat \<Rightarrow> session \<Rightarrow> string \<times> session" where
  "simulateReward e r amt s =
     (let rewardTx = \<lparr> hash = ''0xsim'' @ show_nat (hashTime r) @ substr 2 6 (randomText r),
                        sender = rewardPoolAddress s,
                        recipient = Some ''Pending Connection'',
                        amount = amt,
                        timestamp = stampTime r,
                        status = ''simulated'',
                        kind = ''reward'',
                        demo = False \<rparr>;
          s1 = recordTransaction e rewardTx s;
          s2 = notify e [Str ''You earned '', Num amt, Str '' SHM! Connect wallet to track rewards.'']
                 ''success'' 5000 s1
      in (hash rewardTx, s2))"

definition sendDemoReward ::
  "env \<Rightarrow> entropy \<Rightarrow> address option \<Rightarrow> rat \<Rightarrow> session \<Rightarrow> string \<times> session" where
  "sendDemoReward e r recipientAddress amt s =
     (let demoTx = \<lparr> hash = ''0xdemo'' @ show_nat (hashTime r) @ substr 2 6 (randomText r),
                      sender = rewardPoolAddress s,
                      recipient = recipientAddress,
                      amount = amt,
                      timestamp = stampTime r,
                      status = ''confirmed'',
                      kind = ''reward'',
                      demo = True \<rparr>;
          s1 = recordTransaction e demoTx s;
          s2 = notify e [Str ''Demo reward earned! +'', Num amt, Str '' SHM tokens!'']
                 ''success'' 6000 s1;
          s3 = emit (SetTimeout 1000 LoadDemoBalance) s2
      in (hash demoTx, s3))"

definition trackReward ::
  "env \<Rightarrow> entropy \<Rightarrow> address option \<Rightarrow> rat \<Rightarrow> session \<Rightarrow> string \<times> session" where
  "trackReward e r recipientAddress amt s =
     (let trackTx = \<lparr> hash = ''0xtrack'' @ show_nat (hashTime r) @ substr 2 6 (randomText r),
                       sender = rewardPoolAddress s,
                       recipient = recipientAddress,
                       amount = amt,
                       timestamp = stampTime r,
                       status = ''tracked'',
                       kind = ''reward'',
                       demo = False \<rparr>;
          s1 = recordTransaction e trackTx s;
          s2 = notify e [Str ''Reward earned! +'', Num amt, Str '' SHM added to your balance!'']
                 ''success'' 6000 s1;
          s3 = emit (SetTimeout 1000 LoadBalance) s2
      in (hash trackTx, s3))"

text \<open>\<open>sendReward(recipientAddress, amount = 0.01)\<close>: an omitted \<open>amount\<close> is \<open>None\<close>.\<close>

definition sendReward ::
  "env \<Rightarrow> entropy \<Rightarrow> address option \<Rightarrow> rat option \<Rightarrow> session \<Rightarrow> string \<times> session" where
  "sendReward e r recipientAddress amountArg s =
     (let amt = (case amountArg of None \<Rightarrow> 1 / 100 | Some a \<Rightarrow> a)
      in if \<not> isConnected s then simulateReward e r amt s
         else if demoMode s then sendDemoReward e r recipientAddress amt s
         else trackReward e r recipientAddress amt s)"

subsection \<open>Sequences of calls and readings of the trace\<close>

text \<open>A burst of calls of \<open>connectWallet\<close> that arrive one after the other while no
  pending call is resumed: each runs up to its first wait.\<close>

fun connectWallet_burst :: "env list \<Rightarrow> session \<Rightarrow> bool outcome list \<times> session" where
  "connectWallet_burst [] s = ([], s)"
| "connectWallet_burst (e # es) s =
     (case connectWallet_start e s of
        (r, s1) \<Rightarrow> (case connectWallet_burst es s1 of (rs, s2) \<Rightarrow> (r # rs, s2)))"

text \<open>Calls of \<open>connectWallet\<close> one after the other, each run to its end.\<close>

fun connectAll :: "(env \<times> provider) list \<Rightarrow> session \<Rightarrow> session" where
  "connectAll [] s = s"
| "connectAll ((e, p) # cs) s = connectAll cs (snd (connectWallet e p s))"

text \<open>The methods of the requests sent to the provider, in order.\<close>

definition is_request :: "effect \<Rightarrow> bool" where
  "is_request x = (case x of ProviderRequest _ \<Rightarrow> True | _ \<Rightarrow> False)"

definition requests :: "session \<Rightarrow> effect list" where
  "requests s = filter is_request (out s)"

text \<open>How often the connecting state was shown.\<close>

definition shown_connecting :: "session \<Rightarrow> nat" where
  "shown_connecting s = count_list (out s) UpdateConnectingUI"

text \<open>The notification that \<open>connectDemoWallet\<close> sends when it starts, and how often it
  was sent.\<close>

definition connecting_notice :: effect where
  "connecting_notice = Notification [Str ''Connecting demo wallet...''] ''info'' 2000"

definition notified_connecting :: "session \<Rightarrow> nat" where
  "notified_connecting s = count_list (out s) connecting_notice"

text \<open>A live attempt fails when MetaMask is missing, when the provider rejects the
  request, or when it resolves to no account. It is a rejection by the user when the
  provider was asked and rejected with code 4001.\<close>

definition failing :: "env \<times> provider \<Rightarrow> bool" where
  "failing c =
     (\<not> isMetaMaskAvailable (fst c) \<or>
      (case requestAccounts (snd c) of Resolve accounts \<Rightarrow> accounts = [] | Reject err \<Rightarrow> True))"

definition userRejected :: "env \<times> provider \<Rightarrow> bool" where
  "userRejected c =
     (isMetaMaskAvailable (fst c) \<and>
      (case requestAccounts (snd c) of Resolve accounts \<Rightarrow> False
                                     | Reject err \<Rightarrow> code err = Some 4001))"

text \<open>The balance as the specification words it: the number of contributions times the
  reward per contribution, plus a baseline in demo mode.\<close>

definition derivedBalance :: "nat \<Rightarrow> bool \<Rightarrow> rat" where
  "derivedBalance contributionCount inDemoMode =
     (if inDemoMode then 123 / 1000 else 0) + of_nat contributionCount * (1 / 100)"

subsection \<open>The log as the store hands it over\<close>

text \<open>What \<open>UTILS.storage.get('transaction_history')\<close> returns: \<open>null\<close> (nothing is stored
  under the key, or what is stored does not parse), an array of records, or another JSON
  value, which is truthy (an object, a non-empty string, a number other than 0, \<open>true\<close>)
  or not.\<close>

datatype json = JsonNull | JsonArray "transaction list" | JsonOther bool

text \<open>The object with the field \<open>transactionHistory\<close> as \<open>loadTransactionHistory\<close> leaves it.
  \<open>HasArray s\<close>: the field holds the array \<open>transactionHistory s\<close>. \<open>NoArray s\<close>: the field
  holds a value that is not an array; the other fields are those of \<open>s\<close>.\<close>

datatype manager = HasArray session | NoArray session

fun fields :: "manager \<Rightarrow> session" where
  "fields (HasArray s) = s"
| "fields (NoArray s) = s"

fun on_fields :: "(session \<Rightarrow> session) \<Rightarrow> manager \<Rightarrow> manager" where
  "on_fields f (HasArray s) = HasArray (f s)"
| "on_fields f (NoArray s) = NoArray (f s)"

text \<open>\<open>loadTransactionHistory\<close>, called by \<open>init\<close> on the constructor's log:
  \<open>this.transactionHistory = UTILS.storage.get('transaction_history') || []\<close> keeps every
  truthy value, array or not. Nothing in the \<open>try\<close> block throws (the store catches its own
  errors, and reading \<open>length\<close> of a truthy value does not throw), so the \<open>catch\<close> block
  is never entered.\<close>

definition loadTransactionHistory :: "env \<Rightarrow> json \<Rightarrow> session \<Rightarrow> manager" where
  "loadTransactionHistory e stored s =
     (if utilsStorage e \<noteq> None
      then (case stored of
              JsonNull \<Rightarrow> HasArray (emit (Log ''Loaded'') (s\<lparr>transactionHistory := []\<rparr>))
            | JsonArray ts \<Rightarrow> HasArray (emit (Log ''Loaded'') (s\<lparr>transactionHistory := ts\<rparr>))
            | JsonOther truthy \<Rightarrow>
                if truthy then NoArray (emit (Log ''Loaded'') s)
                else HasArray (emit (Log ''Loaded'') (s\<lparr>transactionHistory := []\<rparr>)))
      else HasArray (emit (Log ''Loaded'') s))"

text \<open>\<open>recordTransaction\<close> on that object: \<open>this.transactionHistory.unshift(transaction)\<close>
  is its first statement, outside any \<open>try\<close>; on a value that is not an array it throws a
  TypeError. The reward methods call \<open>recordTransaction\<close> right after building the record and
  catch nothing, and the promise of the \<open>async\<close> method \<open>sendReward\<close> rejects with the error
  (\<open>Inl\<close>).\<close>

definition recordTransaction_raw :: "env \<Rightarrow> transaction \<Rightarrow> manager \<Rightarrow> js_error + manager" where
  "recordTransaction_raw e t m =
     (case m of
        NoArray s \<Rightarrow> Inl (JsError ''this.transactionHistory.unshift is not a function'' None)
      | HasArray s \<Rightarrow> Inr (HasArray (recordTransaction e t s)))"

definition simulateReward_raw ::
  "env \<Rightarrow> entropy \<Rightarrow> rat \<Rightarrow> manager \<Rightarrow> js_error + string \<times> manager" where
  "simulateReward_raw e r amt m =
     (let rewardTx = \<lparr> hash = ''0xsim'' @ show_nat (hashTime r) @ substr 2 6 (randomText r),
                        sender = rewardPoolAddress (fields m),
                        recipient = Some ''Pending Connection'',
                        amount = amt,
                        timestamp = stampTime r,
                        status = ''simulated'',
                        kind = ''reward'',
                        demo = False \<rparr>
      in case recordTransaction_raw e rewardTx m of
           Inl err \<Rightarrow> Inl err
         | Inr m1 \<Rightarrow>
             Inr (hash rewardTx,
                  on_fields (notify e [Str ''You earned '', Num amt,
                                       Str '' SHM! Connect wallet to track rewards.'']
                               ''success'' 5000) m1))"

definition sendDemoReward_raw ::
  "env \<Rightarrow> entropy \<Rightarrow> address option \<Rightarrow> rat \<Rightarrow> manager \<Rightarrow> js_error + string \<times> manager" where
  "sendDemoReward_raw e r recipientAddress amt m =
     (let demoTx = \<lparr> hash = ''0xdemo'' @ show_nat (hashTime r) @ substr 2 6 (randomText r),
                      sender = rewardPoolAddress (fields m),
                      recipient = recipientAddress,
                      amount = amt,
                      timestamp = stampTime r,
                      status = ''confirmed'',
                      kind = ''reward'',
                      demo = True \<rparr>
      in case recordTransaction_raw e demoTx m of
           Inl err \<Rightarrow> Inl err
         | Inr m1 \<Rightarrow>
             Inr (hash demoTx,
                  on_fields (\<lambda>s1. emit (SetTimeout 1000 LoadDemoBalance)
                                   (notify e [Str ''Demo reward earned! +'', Num amt,
                                              Str '' SHM tokens!''] ''success'' 6000 s1)) m1))"

definition trackReward_raw ::
  "env \<Rightarrow> entropy \<Rightarrow> address option \<Rightarrow> rat \<Rightarrow> manager \<Rightarrow> js_error + string \<times> manager" where
  "trackReward_raw e r recipientAddress amt m =
     (let trackTx = \<lparr> hash = ''0xtrack'' @ show_nat (hashTime r) @ substr 2 6 (randomText r),
                       sender = rewardPoolAddress (fields m),
                       recipient = recipientAddress,
                       amount = amt,
                       timestamp = stampTime r,
                       status = ''tracked'',
                       kind = ''reward'',
                       demo = False \<rparr>
      in case recordTransaction_raw e trackTx m of
           Inl err \<Rightarrow> Inl err
         | Inr m1 \<Rightarrow>
             Inr (hash trackTx,
                  on_fields (\<lambda>s1. emit (SetTimeout 1000 LoadBalance)
                                   (notify e [Str ''Reward earned! +'', Num amt,
                                              Str '' SHM added to your balance!'']
                                      ''success'' 6000 s1)) m1))"

definition sendReward_raw ::
  "env \<Rightarrow> entropy \<Rightarrow> address option \<Rightarrow> rat option \<Rightarrow> manager
   \<Rightarrow> js_error + string \<times> manager" where
  "sendReward_raw e r recipientAddress amountArg m =
     (let amt = (case amountArg of None \<Rightarrow> 1 / 100 | Some a \<Rightarrow> a)
      in if \<not> isConnected (fields m) then simulateReward_raw e r amt m
         else if demoMode (fields m) then sendDemoReward_raw e r recipientAddress amt m
         else trackReward_raw e r recipientAddress amt m)"

subsection \<open>Runs of operations\<close>

text \<open>What can be asked of the session from outside, each run to its end: a call of
  \<open>connectWallet\<close> or of \<open>disconnectWallet\<close>, and the handlers that the provider's
  \<open>disconnect\<close> and \<open>accountsChanged\<close> events reach.\<close>

datatype operation =
    Connect env provider
  | Disconnect env
  | ProviderDisconnect env
  | AccountsChanged env "address list"

fun perform :: "operation \<Rightarrow> session \<Rightarrow> session" where
  "perform (Connect e p) s = snd (connectWallet e p s)"
| "perform (Disconnect e) s = disconnectWallet e s"
| "perform (ProviderDisconnect e) s = handleDisconnect e s"
| "perform (AccountsChanged e accounts) s = handleAccountsChanged e accounts s"

fun performAll :: "operation list \<Rightarrow> session \<Rightarrow> session" where
  "performAll [] s = s"
| "performAll (x # xs) s = performAll xs (perform x s)"

subsection \<open>Sample inputs\<close>

definition sample_env :: env where
  "sample_env =
     \<lparr> windowEthereum = Some \<lparr> isMetaMask = True, providerConnecting = False \<rparr>,
       utilsStorage = Some \<lparr> feedbacks = [''f1'', ''f2''], reports = [''r1''] \<rparr>,
       hasShowNotification = True \<rparr>"

text \<open>The session after \<open>init\<close> has found MetaMask and no connected account.\<close>

definition live_session :: session where
  "live_session = new_session\<lparr>web3 := True, isInitialized := True, eventListenersSetup := True\<rparr>"

definition sample_entropy :: entropy where
  "sample_entropy =
     \<lparr> hashTime = 1700000000000, randomText = ''0.4fzyo82mvyr'', stampTime = 1700000000001 \<rparr>"

definition sample_provider :: "address list reply \<Rightarrow> provider" where
  "sample_provider r =
     \<lparr> requestAccounts = r, chainId = Resolve ''0x89'',
       switchChain = Resolve (), addChain = Resolve () \<rparr>"

definition sample_tx :: "nat \<Rightarrow> transaction" where
  "sample_tx n =
     \<lparr> hash = ''0xsim'' @ show_nat n, sender = ''0x694B31c92E618d24D254bb10e7BF22a4a3C1151b'',
       recipient = Some ''Pending Connection'', amount = 1 / 100, timestamp = n,
       status = ''simulated'', kind = ''reward'', demo = False \<rparr>"

section \<open>Properties\<close>

subsection \<open>Auxiliary facts\<close>

lemmas paint_defs = updateUI_def updateConnectingUI_def updateBalanceUI_def createDemoInterface_def

lemma transactionHistory_emit [simp]: "transactionHistory (emit x s) = transactionHistory s"
  by (simp add: emit_def)

lemma transactionHistory_recordTransaction:
  "transactionHistory (recordTransaction e t s) = take 50 (t # transactionHistory s)"
  by (simp add: recordTransaction_def Let_def)

lemma take_append_take: "take n (xs @ take n ys) = take n (xs @ ys)"
  by (simp add: min_def)

lemma transactionHistory_recordAll:
  "length (transactionHistory s) \<le> 50 \<Longrightarrow>
   transactionHistory (recordAll cs s) = take 50 (rev (map snd cs) @ transactionHistory s)"
proof (induction cs arbitrary: s)
  case Nil
  then show ?case by simp
next
  case (Cons c cs)
  obtain e t where c: "c = (e, t)" by (cases c)
  let ?s = "recordTransaction e t s"
  have len: "length (transactionHistory ?s) \<le> 50"
    by (simp add: transactionHistory_recordTransaction)
  have "transactionHistory (recordAll (c # cs) s)
        = take 50 (rev (map snd cs) @ transactionHistory ?s)"
    using Cons.IH [OF len] by (simp add: c)
  also have "\<dots> = take 50 (rev (map snd cs) @ take 50 (t # transactionHistory s))"
    by (simp only: transactionHistory_recordTransaction)
  also have "\<dots> = take 50 (rev (map snd cs) @ t # transactionHistory s)"
    by (rule take_append_take)
  finally show ?case by (simp add: c)
qed

text \<open>The guard of \<open>connectWallet\<close>.\<close>

lemma connectWallet_start_connecting:
  "isConnecting s \<Longrightarrow>
   connectWallet_start e s = (Returned False, emit (Log ''Connection already in progress...'') s)"
  by (simp add: connectWallet_start_def)

lemma connectWallet_burst_connecting:
  "isConnecting s \<Longrightarrow>
   connectWallet_burst es s
     = (replicate (length es) (Returned False),
        s\<lparr>out := out s @ replicate (length es) (Log ''Connection already in progress...'')\<rparr>)"
proof (induction es arbitrary: s)
  case Nil
  then show ?case by simp
next
  case (Cons e es)
  let ?s1 = "emit (Log ''Connection already in progress...'') s"
  have c: "isConnecting ?s1" using Cons.prems by (simp add: emit_def)
  show ?case
    using Cons.IH [OF c] Cons.prems
    by (simp add: connectWallet_start_connecting) (simp add: emit_def replicate_append_same)
qed

lemma connectWallet_start_awaiting:
  assumes "connectWallet_start e s = (Awaiting w, s1)"
  shows "isConnecting s1
       \<and> requests s1 = requests s @ (if w = RequestAccounts
                                       then [ProviderRequest ''eth_requestAccounts''] else [])"
  using assms
  by (auto simp: connectWallet_start_def connectDemoWallet_start_def connectWallet_catch_def
        Let_def notify_def emit_def paint_defs requests_def is_request_def
        split: if_splits prod.splits)

text \<open>The \<open>catch\<close> block: what it leaves in the fields, and that it asks the provider
  nothing.\<close>

lemma connectWallet_catch_fields:
  "\<not> demoMode s \<Longrightarrow>
   fst (connectWallet_catch e err s) = False
   \<and> \<not> isConnecting (snd (connectWallet_catch e err s))
   \<and> connectionAttempts (snd (connectWallet_catch e err s)) = connectionAttempts s
   \<and> maxConnectionAttempts (snd (connectWallet_catch e err s)) = maxConnectionAttempts s
   \<and> (demoMode (snd (connectWallet_catch e err s))
        \<longleftrightarrow> (code err \<noteq> Some 4001 \<and> maxConnectionAttempts s \<le> connectionAttempts s))
   \<and> requests (snd (connectWallet_catch e err s)) = requests s"
  by (simp add: connectWallet_catch_def connectWallet_finally_def enableDemoMode_def Let_def
        notify_def emit_def paint_defs requests_def is_request_def split: option.splits)

text \<open>One failing live attempt.\<close>

lemma connectWallet_failing:
  assumes "\<not> isConnecting s" and "\<not> demoMode s"
      and "connectionAttempts s < maxConnectionAttempts s" and "failing (e, p)"
  shows "\<not> fst (connectWallet e p s)
       \<and> \<not> isConnecting (snd (connectWallet e p s))
       \<and> connectionAttempts (snd (connectWallet e p s)) = connectionAttempts s + 1
       \<and> maxConnectionAttempts (snd (connectWallet e p s)) = maxConnectionAttempts s
       \<and> (demoMode (snd (connectWallet e p s))
            \<longleftrightarrow> (\<not> userRejected (e, p) \<and> maxConnectionAttempts s \<le> connectionAttempts s + 1))"
proof -
  define s2 where "s2 = emit (Log (''Connecting to MetaMask (attempt '' @
                               show_nat (connectionAttempts s + 1) @ ''/'' @
                               show_nat (maxConnectionAttempts s) @ '')...''))
               (s\<lparr>isConnecting := True, connectionAttempts := connectionAttempts s + 1\<rparr>)"
  define s3 where "s3 = emit (ProviderRequest ''eth_requestAccounts'') (updateConnectingUI s2)"
  have f2: "\<not> demoMode s2" "connectionAttempts s2 = connectionAttempts s + 1"
      "maxConnectionAttempts s2 = maxConnectionAttempts s"
    using assms(2) by (simp_all add: s2_def emit_def)
  have f3: "\<not> demoMode s3" "connectionAttempts s3 = connectionAttempts s + 1"
      "maxConnectionAttempts s3 = maxConnectionAttempts s"
    using f2 by (simp_all add: s3_def emit_def paint_defs)
  obtain err s' where eq: "connectWallet e p s = connectWallet_catch e err s'"
      and cd: "code err = Some 4001 \<longleftrightarrow> userRejected (e, p)"
      and s': "s' = s2 \<or> s' = s3"
  proof (cases "isMetaMaskAvailable e")
    case False
    have "connectWallet e p s = connectWallet_catch e (JsError ''MetaMask not available'' None) s2"
      using assms(1,2,3) False
      by (simp add: connectWallet_def connectWallet_start_def Let_def s2_def split: prod.splits)
    moreover have "code (JsError ''MetaMask not available'' None) = Some 4001
                   \<longleftrightarrow> userRejected (e, p)"
      using False by (simp add: userRejected_def)
    ultimately show ?thesis using that by blast
  next
    case True
    have st: "connectWallet e p s = connectWallet_resume e p s3"
      using assms(1,2,3) True
      by (simp add: connectWallet_def connectWallet_start_def Let_def s2_def s3_def)
    have "\<exists>err. connectWallet_resume e p s3 = connectWallet_catch e err s3
               \<and> (code err = Some 4001 \<longleftrightarrow> userRejected (e, p))"
      using assms(4) True
      by (auto simp: connectWallet_resume_def failing_def userRejected_def
            split: reply.splits list.splits)
    then show ?thesis using that st by auto
  qed
  have nd: "\<not> demoMode s'" "connectionAttempts s' = connectionAttempts s + 1"
      "maxConnectionAttempts s' = maxConnectionAttempts s"
    using s' f2 f3 by auto
  show ?thesis
    using connectWallet_catch_fields [OF nd(1), of e err] cd nd(2,3)
    by (simp add: eq)
qed

text \<open>A run of failing live attempts that does not pass the maximum: induction on the
  run, the session generalised.\<close>

lemma connectAll_failing:
  "\<not> isConnecting s \<Longrightarrow> \<not> demoMode s \<Longrightarrow> cs \<noteq> [] \<Longrightarrow> list_all failing cs \<Longrightarrow>
   connectionAttempts s + length cs \<le> maxConnectionAttempts s \<Longrightarrow>
   \<not> isConnecting (connectAll cs s)
   \<and> connectionAttempts (connectAll cs s) = connectionAttempts s + length cs
   \<and> maxConnectionAttempts (connectAll cs s) = maxConnectionAttempts s
   \<and> (demoMode (connectAll cs s)
        \<longleftrightarrow> (\<not> userRejected (last cs)
             \<and> connectionAttempts s + length cs = maxConnectionAttempts s))"
proof (induction cs arbitrary: s)
  case Nil
  then show ?case by simp
next
  case (Cons c cs)
  obtain e p where c: "c = (e, p)" by (cases c)
  let ?s1 = "snd (connectWallet e p s)"
  have lt: "connectionAttempts s < maxConnectionAttempts s" using Cons.prems(5) by simp
  have fl: "failing (e, p)" using Cons.prems(4) c by simp
  note one = connectWallet_failing [OF Cons.prems(1,2) lt fl]
  show ?case
  proof (cases cs)
    case Nil
    then show ?thesis using one Cons.prems(5) by (auto simp: c)
  next
    case (Cons c' cs')
    have ne: "cs \<noteq> []" using Cons by simp
    have a1: "\<not> isConnecting ?s1" using one by simp
    have a2: "\<not> demoMode ?s1" using one Cons.prems(5) Cons by simp
    have a4: "list_all failing cs" using Cons.prems(4) by simp
    have a5: "connectionAttempts ?s1 + length cs \<le> maxConnectionAttempts ?s1"
      using one Cons.prems(5) by simp
    show ?thesis
      using Cons.IH [OF a1 a2 ne a4 a5] one ne by (simp add: c)
  qed
qed

text \<open>A call that finds the attempts used up, or the session in demo mode already.\<close>

lemma connectWallet_demo:
  "demoMode s \<Longrightarrow> \<not> isConnecting s \<Longrightarrow>
   connectWallet e p s
     = (True, s\<lparr>account := Some ''0x742d35Cc6634C0532925a3b8D98d27f65d3c3eA6'',
                isConnected := True,
                out := out (snd (connectWallet e p s))\<rparr>)
   \<and> requests (snd (connectWallet e p s)) = requests s"
  by (simp add: connectWallet_def connectWallet_start_def connectDemoWallet_start_def
        connectDemoWallet_resume_def loadDemoBalance_def Let_def notify_def emit_def paint_defs
        requests_def is_request_def)

lemma connectWallet_exhausted:
  assumes "\<not> isConnecting s" and "maxConnectionAttempts s \<le> connectionAttempts s"
  shows "demoMode (snd (connectWallet e p s)) \<and> requests (snd (connectWallet e p s)) = requests s"
proof (cases "demoMode s")
  case True
  then show ?thesis using assms(1)
    by (simp add: connectWallet_def connectWallet_start_def connectDemoWallet_start_def
        connectDemoWallet_resume_def loadDemoBalance_def Let_def notify_def emit_def paint_defs
        requests_def is_request_def)
next
  case False
  then show ?thesis using assms
    by (simp add: connectWallet_def connectWallet_start_def enableDemoMode_def Let_def
        emit_def paint_defs requests_def is_request_def split: option.splits)
qed


text \<open>\<open>disconnectWallet\<close> in its two cases.\<close>

lemma disconnectWallet_connecting:
  "isConnecting s \<Longrightarrow> disconnectWallet e s = emit (Log ''Cannot disconnect while connecting'') s"
  by (simp add: disconnectWallet_def)

lemma disconnectWallet_idle:
  "\<not> isConnecting s \<Longrightarrow>
   disconnectWallet e s
     = s\<lparr>account := None, isConnected := False, connectionAttempts := 0,
          out := out s @ [Log ''Disconnecting wallet...'', UpdateUI]
                 @ (if hasShowNotification e
                    then [Notification [Str ((if demoMode s then ''Demo wallet'' else ''Wallet'')
                                             @ '' disconnected'')] ''info'' 5000]
                    else [])\<rparr>"
  by (simp add: disconnectWallet_def Let_def notify_def emit_def paint_defs)

text \<open>\<open>loadBalance\<close> against the balance of the specification.\<close>

lemma loadBalance_computed:
  "demoMode s \<or> (account s \<noteq> None \<and> account s \<noteq> Some [] \<and> web3 s) \<Longrightarrow>
   loadBalance e s
     = emit (UpdateBalanceUI (if demoMode s then ''2.456'' else ''0.000'')
               (toFixed3 (derivedBalance (getUserContributionCount e) (demoMode s)))) s"
  by (auto simp: loadBalance_def loadDemoBalance_def updateBalanceUI_def derivedBalance_def Let_def)

lemma floor_half: "\<lfloor>rat_of_int k + 1 / 2\<rfloor> = k"
  by (rule floor_unique) simp_all

lemma thousandths:
  "\<lfloor>\<bar>derivedBalance n d\<bar> * 1000 + 1 / 2\<rfloor> = int ((if d then 123 else 0) + 10 * n)"
proof -
  have nn: "0 \<le> derivedBalance n d" by (simp add: derivedBalance_def)
  have "derivedBalance n d * 1000 = rat_of_int (int ((if d then 123 else 0) + 10 * n))"
    by (simp add: derivedBalance_def algebra_simps)
  then have "\<bar>derivedBalance n d\<bar> * 1000 + 1 / 2
             = rat_of_int (int ((if d then 123 else 0) + 10 * n)) + 1 / 2"
    using nn by simp
  then show ?thesis by (simp only: floor_half)
qed

text \<open>\<open>toFixed(3)\<close> loses nothing on a balance: it prints the whole number of thousandths
  \<open>10 * n\<close>, or \<open>123 + 10 * n\<close> in demo mode.\<close>

lemma toFixed3_derivedBalance:
  "toFixed3 (derivedBalance n d)
     = (let k = (if d then 123 else 0) + 10 * n; f = k mod 1000
        in show_nat (k div 1000) @ ''.'' @
           [char_of (48 + f div 100), char_of (48 + f div 10 mod 10), char_of (48 + f mod 10)])"
proof -
  have nn: "\<not> derivedBalance n d < 0" by (simp add: derivedBalance_def)
  have k: "nat \<lfloor>\<bar>derivedBalance n d\<bar> * 1000 + 1 / 2\<rfloor> = (if d then 123 else 0) + 10 * n"
    by (simp only: thousandths nat_int)
  show ?thesis
    unfolding toFixed3_def k using nn by (simp add: Let_def)
qed

text \<open>\<open>handleAccountsChanged\<close> on a non-empty account list.\<close>

lemma handleAccountsChanged_same:
  "\<not> isConnecting s \<Longrightarrow> account s = Some a \<Longrightarrow>
   handleAccountsChanged e (a # others) s = emit (Log ''Handling account change...'') s"
  by (simp add: handleAccountsChanged_def Let_def emit_def)

lemma handleAccountsChanged_other:
  "\<not> isConnecting s \<Longrightarrow> account s \<noteq> Some b \<Longrightarrow>
   handleAccountsChanged e (b # others) s
     = loadBalance e
         (s\<lparr>account := Some b, isConnected := True,
            out := out s @ [Log ''Handling account change...'', Log ''Account switched to:'', UpdateUI]\<rparr>)"
  by (simp add: handleAccountsChanged_def Let_def emit_def paint_defs)



text \<open>Where the connecting state is shown, and where the demo wallet's notice is sent:
  nowhere but before the wait.\<close>


lemma quiet_emit:
  "count_list (out (emit y s)) x = count_list (out s) x + (if y = x then 1 else 0)"
  by (simp add: emit_def)

lemma quiet_notify:
  "count_list (out (notify e msg ty dur s)) x
     = count_list (out s) x + (if hasShowNotification e \<and> Notification msg ty dur = x then 1 else 0)"
  by (simp add: notify_def emit_def)

lemma quiet_enableDemoMode:
  "x = UpdateConnectingUI \<or> x = connecting_notice \<Longrightarrow>
   count_list (out (enableDemoMode s)) x = count_list (out s) x"
  by (auto simp: enableDemoMode_def Let_def emit_def paint_defs connecting_notice_def
        split: option.splits)

lemma quiet_finally:
  "x = UpdateConnectingUI \<or> x = connecting_notice \<Longrightarrow>
   count_list (out (connectWallet_finally s)) x = count_list (out s) x"
  by (auto simp: connectWallet_finally_def Let_def emit_def paint_defs connecting_notice_def)

lemma quiet_catch:
  assumes x: "x = UpdateConnectingUI \<or> x = connecting_notice"
  shows "count_list (out (snd (connectWallet_catch e err s))) x = count_list (out s) x"
proof -
  have n: "\<And>msg ty. Notification [Str msg] ty 5000 \<noteq> x"
    using x by (auto simp: connecting_notice_def)
  have l: "Log ''Wallet connection error:'' \<noteq> x"
    using x by (auto simp: connecting_notice_def)
  show ?thesis
    by (simp add: connectWallet_catch_def Let_def quiet_finally [OF x] quiet_enableDemoMode [OF x]
          quiet_notify quiet_emit n l)
qed

lemma quiet_loadBalance:
  "x = UpdateConnectingUI \<or> x = connecting_notice \<Longrightarrow>
   count_list (out (loadBalance e s)) x = count_list (out s) x"
  by (auto simp: loadBalance_def loadDemoBalance_def Let_def updateBalanceUI_def quiet_emit
        connecting_notice_def)

lemma quiet_switchNetwork:
  "x = UpdateConnectingUI \<or> x = connecting_notice \<Longrightarrow>
   count_list (out (switchNetwork p s)) x = count_list (out s) x"
  by (auto simp: switchNetwork_def Let_def quiet_emit connecting_notice_def split: reply.splits)

lemma quiet_ensureCorrectNetwork:
  "x = UpdateConnectingUI \<or> x = connecting_notice \<Longrightarrow>
   count_list (out (ensureCorrectNetwork e p s)) x = count_list (out s) x"
  by (auto simp: ensureCorrectNetwork_def Let_def quiet_emit quiet_switchNetwork
        connecting_notice_def split: reply.splits)

lemma quiet_resume:
  assumes x: "x = UpdateConnectingUI \<or> x = connecting_notice"
  shows "count_list (out (snd (connectWallet_resume e p s))) x = count_list (out s) x"
proof (cases "requestAccounts p")
  case (Reject err)
  then show ?thesis by (simp add: connectWallet_resume_def quiet_catch [OF x])
next
  case (Resolve accounts)
  show ?thesis
  proof (cases accounts)
    case Nil
    then show ?thesis using Resolve by (simp add: connectWallet_resume_def quiet_catch [OF x])
  next
    case (Cons a others)
    define s1 where "s1 = s\<lparr>account := Some a, isConnected := True, connectionAttempts := 0\<rparr>"
    have s1: "count_list (out s1) x = count_list (out s) x"
      by (simp add: s1_def)
    have n: "Notification [Str ''Wallet connected successfully!''] ''success'' 4000 \<noteq> x"
      and l: "Log ''Wallet connected:'' \<noteq> x" and u: "UpdateUI \<noteq> x"
      using x by (auto simp: connecting_notice_def)
    have "snd (connectWallet_resume e p s)
          = connectWallet_finally
              (notify e [Str ''Wallet connected successfully!''] ''success'' 4000
                (loadBalance e (updateUI (ensureCorrectNetwork e p
                   (emit (Log ''Wallet connected:'') s1)))))"
      using Resolve Cons by (simp add: connectWallet_resume_def Let_def s1_def)
    then show ?thesis
      by (simp add: quiet_finally [OF x] quiet_notify quiet_loadBalance [OF x] updateUI_def
            quiet_emit quiet_ensureCorrectNetwork [OF x] n l u s1)
  qed
qed

lemma quiet_demo:
  assumes "demoMode s" and "\<not> isConnecting s"
  shows "count_list (out (snd (connectWallet e p s))) UpdateConnectingUI
           = count_list (out s) UpdateConnectingUI + 1"
    and "count_list (out (snd (connectWallet e p s))) connecting_notice
           = count_list (out s) connecting_notice + (if hasShowNotification e then 1 else 0)"
proof -
  have eq: "snd (connectWallet e p s)
        = (notify e [Str ''Demo wallet connected! Submit content to earn rewards!''] ''success'' 5000
            (loadDemoBalance e (updateUI
              ((notify e [Str ''Connecting demo wallet...''] ''info'' 2000
                 (updateConnectingUI (emit (Log ''Connecting demo wallet...'')
                    (s\<lparr>isConnecting := True\<rparr>))))
               \<lparr>account := Some ''0x742d35Cc6634C0532925a3b8D98d27f65d3c3eA6'',
                 isConnected := True\<rparr>))))\<lparr>isConnecting := False\<rparr>"
    using assms
    by (simp add: connectWallet_def connectWallet_start_def connectDemoWallet_start_def
          connectDemoWallet_resume_def Let_def)
  show "count_list (out (snd (connectWallet e p s))) UpdateConnectingUI
           = count_list (out s) UpdateConnectingUI + 1"
    by (simp add: eq quiet_notify loadDemoBalance_def Let_def paint_defs quiet_emit)
  show "count_list (out (snd (connectWallet e p s))) connecting_notice
           = count_list (out s) connecting_notice + (if hasShowNotification e then 1 else 0)"
    by (simp add: eq quiet_notify loadDemoBalance_def Let_def paint_defs quiet_emit
          connecting_notice_def)
qed

text \<open>The reward methods where the log is an array: the hash is never empty.\<close>

lemma sendReward_hash_shape:
  "fst (sendReward e r recipientAddress amountArg s) \<noteq> []
   \<and> fst (sendReward e r recipientAddress amountArg s)
       = (if \<not> isConnected s then ''0xsim'' else if demoMode s then ''0xdemo'' else ''0xtrack'')
         @ show_nat (hashTime r) @ substr 2 6 (randomText r)
   \<and> transactionHistory (snd (sendReward e r recipientAddress amountArg s)) \<noteq> []
   \<and> hash (hd (transactionHistory (snd (sendReward e r recipientAddress amountArg s))))
       = fst (sendReward e r recipientAddress amountArg s)"
  by (simp add: sendReward_def simulateReward_def sendDemoReward_def trackReward_def Let_def
        notify_def emit_def recordTransaction_def)

text \<open>The reward methods on the object as loaded: with an array in the log field they are
  the methods above; with anything else they throw.\<close>

lemma sendReward_raw_other:
  "sendReward_raw e r recipientAddress amountArg (NoArray s)
     = Inl (JsError ''this.transactionHistory.unshift is not a function'' None)"
  by (simp add: sendReward_raw_def simulateReward_raw_def sendDemoReward_raw_def
        trackReward_raw_def recordTransaction_raw_def Let_def)

lemma sendReward_raw_array:
  "sendReward_raw e r recipientAddress amountArg (HasArray s)
     = Inr (fst (sendReward e r recipientAddress amountArg s),
            HasArray (snd (sendReward e r recipientAddress amountArg s)))"
  by (simp add: sendReward_raw_def simulateReward_raw_def sendDemoReward_raw_def
        trackReward_raw_def recordTransaction_raw_def Let_def
        sendReward_def simulateReward_def sendDemoReward_def trackReward_def)

text \<open>Once in demo mode, always in demo mode, and the provider is asked nothing more.\<close>

lemma demo_stays:
  assumes "demoMode s" and "\<not> isConnecting s"
  shows "demoMode (perform x s) \<and> \<not> isConnecting (perform x s)
       \<and> requests (perform x s) = requests s"
proof (cases x)
  case (Connect e p)
  from connectWallet_demo [OF assms, of e p] have
    c1: "connectWallet e p s
     = (True, s\<lparr>account := Some ''0x742d35Cc6634C0532925a3b8D98d27f65d3c3eA6'',
                isConnected := True,
                out := out (snd (connectWallet e p s))\<rparr>)"
    and c2: "requests (snd (connectWallet e p s)) = requests s" by simp_all
  have "demoMode (snd (connectWallet e p s))" by (subst c1) (simp add: assms)
  moreover have "\<not> isConnecting (snd (connectWallet e p s))" by (subst c1) (simp add: assms)
  ultimately show ?thesis using c2 Connect by simp
next
  case (Disconnect e)
  then show ?thesis using assms
    by (simp add: disconnectWallet_idle requests_def is_request_def)
next
  case (ProviderDisconnect e)
  have c: "\<not> isConnecting (emit (Log ''Handling disconnect...'') s)"
    using assms by (simp add: emit_def)
  show ?thesis using assms ProviderDisconnect
    by (simp add: handleDisconnect_def disconnectWallet_idle [OF c] requests_def)
       (simp add: emit_def is_request_def)
next
  case (AccountsChanged e accounts)
  show ?thesis
  proof (cases accounts)
    case Nil
    have c: "\<not> isConnecting (emit (Log ''No accounts, disconnecting'')
                 (emit (Log ''Handling account change...'') s))"
      using assms by (simp add: emit_def)
    show ?thesis using assms AccountsChanged Nil
      by (simp add: handleAccountsChanged_def Let_def disconnectWallet_idle [OF c]
            requests_def)
         (simp add: emit_def is_request_def)
  next
    case (Cons b others)
    show ?thesis using assms AccountsChanged Cons
      by (simp add: handleAccountsChanged_def Let_def loadBalance_def loadDemoBalance_def
            paint_defs emit_def requests_def is_request_def)
  qed
qed

lemma demo_stays_all:
  "demoMode s \<Longrightarrow> \<not> isConnecting s \<Longrightarrow>
   demoMode (performAll xs s) \<and> \<not> isConnecting (performAll xs s)
   \<and> requests (performAll xs s) = requests s"
proof (induction xs arbitrary: s)
  case Nil
  then show ?case by simp
next
  case (Cons x xs)
  note one = demo_stays [OF Cons.prems, of x]
  from one have a: "demoMode (perform x s)" and b: "\<not> isConnecting (perform x s)"
    and c: "requests (perform x s) = requests s" by simp_all
  show ?case using Cons.IH [OF a b] c by simp
qed

lemma connectWallet_exhausted_idle:
  assumes "\<not> isConnecting s" and "maxConnectionAttempts s \<le> connectionAttempts s"
  shows "\<not> isConnecting (snd (connectWallet e p s))"
proof (cases "demoMode s")
  case True
  then show ?thesis using assms(1)
    by (simp add: connectWallet_def connectWallet_start_def connectDemoWallet_start_def
        connectDemoWallet_resume_def Let_def)
next
  case False
  then show ?thesis using assms
    by (simp add: connectWallet_def connectWallet_start_def enableDemoMode_def Let_def
        emit_def paint_defs split: option.splits)
qed

lemma connectWallet_failing_asks:
  assumes "\<not> isConnecting s" and "\<not> demoMode s"
      and "connectionAttempts s < maxConnectionAttempts s" and "failing (e, p)"
      and "isMetaMaskAvailable e"
  shows "requests (snd (connectWallet e p s))
         = requests s @ [ProviderRequest ''eth_requestAccounts'']"
proof -
  define s3 where "s3 = emit (ProviderRequest ''eth_requestAccounts'')
       (updateConnectingUI (emit (Log (''Connecting to MetaMask (attempt '' @
                               show_nat (connectionAttempts s + 1) @ ''/'' @
                               show_nat (maxConnectionAttempts s) @ '')...''))
               (s\<lparr>isConnecting := True, connectionAttempts := connectionAttempts s + 1\<rparr>)))"
  have f3: "\<not> demoMode s3"
    and r3: "requests s3 = requests s @ [ProviderRequest ''eth_requestAccounts'']"
    using assms(2) by (simp_all add: s3_def emit_def paint_defs requests_def is_request_def)
  have st: "connectWallet e p s = connectWallet_resume e p s3"
    using assms(1,2,3,5)
    by (simp add: connectWallet_def connectWallet_start_def Let_def s3_def)
  have "\<exists>err. connectWallet_resume e p s3 = connectWallet_catch e err s3"
    using assms(4,5)
    by (auto simp: connectWallet_resume_def failing_def split: reply.splits list.splits)
  then obtain err where res: "connectWallet_resume e p s3 = connectWallet_catch e err s3"
    by blast
  show ?thesis
    using connectWallet_catch_fields [OF f3, of e err] r3 by (simp add: st res)
qed

text \<open>Before the session has fallen back, a \<open>disconnect\<close> event of the provider sets the
  attempt counter to 0 (\<open>handleDisconnect\<close> does not look at \<open>isConnected\<close>), and the next
  failing call asks the provider again.\<close>

lemma disconnect_event_allows_live_retry:
  assumes "\<not> isConnecting s" and "\<not> demoMode s" and "0 < maxConnectionAttempts s"
      and "failing (e', p)" and "isMetaMaskAvailable e'"
  shows "connectionAttempts (handleDisconnect e s) = 0
       \<and> requests (snd (connectWallet e' p (handleDisconnect e s)))
           = requests s @ [ProviderRequest ''eth_requestAccounts'']"
proof -
  have c: "\<not> isConnecting (emit (Log ''Handling disconnect...'') s)"
    using assms(1) by (simp add: emit_def)
  let ?d = "handleDisconnect e s"
  have d: "?d = disconnectWallet e (emit (Log ''Handling disconnect...'') s)"
    using assms(1) by (simp add: handleDisconnect_def)
  have f: "\<not> isConnecting ?d" "\<not> demoMode ?d" "connectionAttempts ?d = 0"
      "maxConnectionAttempts ?d = maxConnectionAttempts s"
    using assms(1,2) by (simp_all add: d disconnectWallet_idle [OF c]) (simp_all add: emit_def)
  have r: "requests ?d = requests s"
    by (simp add: d disconnectWallet_idle [OF c] requests_def) (simp add: emit_def is_request_def)
  have lt: "connectionAttempts ?d < maxConnectionAttempts ?d"
    using f assms(3) by simp
  show ?thesis
    using connectWallet_failing_asks [OF f(1,2) lt assms(4,5)] f(3) r by simp
qed

section \<open>The claims\<close>

text \<open>
  Claim C1 says that \<open>sendReward\<close> never throws and returns a non-empty hash in every state.
  Where the field \<open>transactionHistory\<close> holds an array this is so (\<open>sendReward_hash_shape\<close>,
  \<open>sendReward_raw_array\<close>). But \<open>loadTransactionHistory\<close> keeps whatever truthy value the
  store returns for the key, without the \<open>Array.isArray\<close> test that \<open>getFeedbacks\<close> and
  \<open>getReports\<close> apply to the same read. Here the store returns a JSON object: after
  \<open>loadTransactionHistory\<close> the log field is no array, and \<open>sendReward\<close> is rejected with the
  TypeError of \<open>unshift\<close> in each of the three states (disconnected, connected in live
  mode, connected in demo mode) instead of returning a hash.
\<close>

theorem sendReward_rejects_on_stored_object:
  "loadTransactionHistory sample_env (JsonOther True) live_session
     = NoArray (emit (Log ''Loaded'') live_session)
   \<and> sendReward_raw sample_env sample_entropy (Some ''0xABC'') (Some (1 / 100))
        (loadTransactionHistory sample_env (JsonOther True) live_session)
     = Inl (JsError ''this.transactionHistory.unshift is not a function'' None)
   \<and> sendReward_raw sample_env sample_entropy (Some ''0xABC'') (Some (1 / 100))
        (on_fields (\<lambda>s. s\<lparr>account := Some ''0xABC'', isConnected := True\<rparr>)
           (loadTransactionHistory sample_env (JsonOther True) live_session))
     = Inl (JsError ''this.transactionHistory.unshift is not a function'' None)
   \<and> sendReward_raw sample_env sample_entropy (Some ''0xABC'') (Some (1 / 100))
        (on_fields (\<lambda>s. s\<lparr>account := Some ''0xABC'', isConnected := True, demoMode := True\<rparr>)
           (loadTransactionHistory sample_env (JsonOther True) live_session))
     = Inl (JsError ''this.transactionHistory.unshift is not a function'' None)"
proof -
  have l: "loadTransactionHistory sample_env (JsonOther True) live_session
     = NoArray (emit (Log ''Loaded'') live_session)"
    by (simp add: loadTransactionHistory_def sample_env_def)
  show ?thesis
    by (simp add: l sendReward_raw_other)
qed

text \<open>
  Claim C2. The log never holds more than 50 records, and eviction is first in, first out:
  after any sequence \<open>cs\<close> of calls of \<open>recordTransaction\<close> on a log of at most 50 records,
  the log is the 50 newest records, newest first, so the records dropped are the ones
  appended earliest; and one call on a log of exactly 50 records drops the last element
  of the log, which is its oldest record.
\<close>

theorem recordTransaction_cap_fifo:
  assumes "length (transactionHistory s) \<le> 50"
  shows "length (transactionHistory (recordAll cs s)) \<le> 50
       \<and> transactionHistory (recordAll cs s) = take 50 (rev (map snd cs) @ transactionHistory s)
       \<and> (length (transactionHistory s) = 50 \<longrightarrow>
            transactionHistory (recordTransaction e t s) = t # butlast (transactionHistory s))"
proof -
  have a: "transactionHistory (recordAll cs s) = take 50 (rev (map snd cs) @ transactionHistory s)"
    using assms by (rule transactionHistory_recordAll)
  have b: "length (transactionHistory (recordAll cs s)) \<le> 50"
    by (simp add: a)
  have c: "length (transactionHistory s) = 50 \<longrightarrow>
            transactionHistory (recordTransaction e t s) = t # butlast (transactionHistory s)"
    by (simp add: transactionHistory_recordTransaction butlast_conv_take)
  from a b c show ?thesis by blast
qed

theorem recordTransaction_cap_fifo_witness:
  "length (transactionHistory new_session) \<le> 50
   \<and> length (transactionHistory
         (recordAll (map (\<lambda>n. (sample_env, sample_tx n)) [0..<51]) new_session)) \<le> 50
   \<and> transactionHistory (recordAll (map (\<lambda>n. (sample_env, sample_tx n)) [0..<51]) new_session)
       = take 50 (rev (map snd (map (\<lambda>n. (sample_env, sample_tx n)) [0..<51]))
                  @ transactionHistory new_session)
   \<and> sample_tx 0 \<notin> set (transactionHistory
         (recordAll (map (\<lambda>n. (sample_env, sample_tx n)) [0..<51]) new_session))"
proof -
  have h: "length (transactionHistory new_session) \<le> 50"
    by (simp add: new_session_def)
  have n: "sample_tx 0 \<notin> set (take 50 (rev (map snd (map (\<lambda>n. (sample_env, sample_tx n)) [0..<51]))
                  @ transactionHistory new_session))"
    by code_simp
  show ?thesis
    using h n recordTransaction_cap_fifo [OF h, of "map (\<lambda>n. (sample_env, sample_tx n)) [0..<51]"]
    by simp
qed

text \<open>
  Claim C3. While a call of \<open>connectWallet\<close> waits (for the provider's accounts or for the
  demo wallet's timer), \<open>isConnecting\<close> is set, and the call has sent at most one request
  to the provider: \<open>eth_requestAccounts\<close>, once, when it waits for the provider. Every call
  of \<open>connectWallet\<close> in a burst \<open>es\<close> of calls that arrive during the wait returns \<open>false\<close>,
  leaves every field of the session as it is, adds only its console line to the trace and
  sends nothing to the provider: a single request stays outstanding.
\<close>

theorem connect_while_connecting:
  assumes "connectWallet_start e s = (Awaiting w, s1)"
  shows "isConnecting s1
       \<and> requests s1 = requests s @ (if w = RequestAccounts
                                       then [ProviderRequest ''eth_requestAccounts''] else [])
       \<and> connectWallet_burst es s1
           = (replicate (length es) (Returned False),
              s1\<lparr>out := out s1 @ replicate (length es) (Log ''Connection already in progress...'')\<rparr>)
       \<and> requests (snd (connectWallet_burst es s1)) = requests s1"
proof -
  have a: "isConnecting s1"
    and b: "requests s1 = requests s @ (if w = RequestAccounts
                                         then [ProviderRequest ''eth_requestAccounts''] else [])"
    using connectWallet_start_awaiting [OF assms] by simp_all
  have c: "connectWallet_burst es s1
           = (replicate (length es) (Returned False),
              s1\<lparr>out := out s1 @ replicate (length es) (Log ''Connection already in progress...'')\<rparr>)"
    using a by (rule connectWallet_burst_connecting)
  have d: "requests (snd (connectWallet_burst es s1)) = requests s1"
    by (simp add: c requests_def is_request_def)
  from a b c d show ?thesis by blast
qed

theorem connect_while_connecting_witness:
  "connectWallet_start sample_env live_session
     = (Awaiting RequestAccounts, snd (connectWallet_start sample_env live_session))
   \<and> isConnecting (snd (connectWallet_start sample_env live_session))
   \<and> requests (snd (connectWallet_start sample_env live_session))
       = [ProviderRequest ''eth_requestAccounts'']
   \<and> fst (connectWallet_burst [sample_env, sample_env]
            (snd (connectWallet_start sample_env live_session)))
       = [Returned False, Returned False]
   \<and> requests (snd (connectWallet_burst [sample_env, sample_env]
                      (snd (connectWallet_start sample_env live_session))))
       = [ProviderRequest ''eth_requestAccounts'']"
proof -
  have h: "connectWallet_start sample_env live_session
     = (Awaiting RequestAccounts, snd (connectWallet_start sample_env live_session))"
    by code_simp
  have r: "requests live_session = []"
    by code_simp
  note t = connect_while_connecting [OF h, of "[sample_env, sample_env]"]
  have t1: "isConnecting (snd (connectWallet_start sample_env live_session))"
    using t by blast
  have t2: "requests (snd (connectWallet_start sample_env live_session))
       = [ProviderRequest ''eth_requestAccounts'']"
    using t r by simp
  have t3: "fst (connectWallet_burst [sample_env, sample_env]
            (snd (connectWallet_start sample_env live_session)))
       = [Returned False, Returned False]"
    using t by (simp add: numeral_2_eq_2)
  have t4: "requests (snd (connectWallet_burst [sample_env, sample_env]
                      (snd (connectWallet_start sample_env live_session))))
       = [ProviderRequest ''eth_requestAccounts'']"
    using t t2 by metis
  from h t1 t2 t3 t4 show ?thesis by blast
qed

text \<open>
  Claim C4, as the specification states it: after three consecutive failed live attempts
  the session is in demo mode. It is not when the third failure is a rejection by the
  user: the \<open>catch\<close> block of \<open>connectWallet\<close> tests \<open>error.code === 4001\<close> first and
  enables demo mode only in the branch after it. Three rejected attempts in a row leave
  the counter at the maximum 3 and the session in live mode.
\<close>

theorem three_rejections_stay_live:
  "list_all failing
     (replicate 3 (sample_env,
                   sample_provider (Reject (JsError ''User rejected the request.'' (Some 4001)))))
   \<and> connectionAttempts
       (connectAll
          (replicate 3 (sample_env,
                        sample_provider (Reject (JsError ''User rejected the request.'' (Some 4001)))))
          live_session) = 3
   \<and> maxConnectionAttempts
       (connectAll
          (replicate 3 (sample_env,
                        sample_provider (Reject (JsError ''User rejected the request.'' (Some 4001)))))
          live_session) = 3
   \<and> \<not> demoMode
       (connectAll
          (replicate 3 (sample_env,
                        sample_provider (Reject (JsError ''User rejected the request.'' (Some 4001)))))
          live_session)"
proof -
  let ?c = "(sample_env, sample_provider (Reject (JsError ''User rejected the request.'' (Some 4001))))"
  have h1: "\<not> isConnecting live_session" and h2: "\<not> demoMode live_session"
    and h3: "connectionAttempts live_session = 0" and h4: "maxConnectionAttempts live_session = 3"
    by (simp_all add: live_session_def new_session_def)
  have f: "failing ?c" by code_simp
  have u: "userRejected ?c" by code_simp
  have h5: "replicate 3 ?c \<noteq> []" by (simp add: numeral_3_eq_3)
  have h6: "list_all failing (replicate 3 ?c)" using f by (simp add: numeral_3_eq_3)
  have h7: "connectionAttempts live_session + length (replicate 3 ?c)
            \<le> maxConnectionAttempts live_session"
    by (simp add: h3 h4)
  have l: "last (replicate 3 ?c) = ?c" by (simp add: numeral_3_eq_3)
  show ?thesis
    using connectAll_failing [OF h1 h2 h5 h6 h7] h3 h4 h6 u by (simp only: l) simp
qed

text \<open>
  Claim C4, amended. Let a session in live mode with no attempt counted make as many
  consecutive failing attempts as the maximum allows (three by default). Then the counter
  is at the maximum, and the session is in demo mode exactly when the last failure was not
  a rejection by the user. In both cases the next call of \<open>connectWallet\<close> leaves the
  session in demo mode and sends no request to the provider; and after that call every
  run \<open>xs\<close> of further calls of \<open>connectWallet\<close> and \<open>disconnectWallet\<close> and of provider
  events (\<open>disconnect\<close>, \<open>accountsChanged\<close>) keeps the session in demo mode and sends no
  request to the provider: live connection is never retried indefinitely.
\<close>

theorem exhausted_attempts_then_demo:
  assumes "\<not> isConnecting s" and "\<not> demoMode s" and "connectionAttempts s = 0"
      and "cs \<noteq> []" and "length cs = maxConnectionAttempts s" and "list_all failing cs"
  shows "connectionAttempts (connectAll cs s) = maxConnectionAttempts s
       \<and> \<not> isConnecting (connectAll cs s)
       \<and> (demoMode (connectAll cs s) \<longleftrightarrow> \<not> userRejected (last cs))
       \<and> demoMode (snd (connectWallet e p (connectAll cs s)))
       \<and> requests (snd (connectWallet e p (connectAll cs s))) = requests (connectAll cs s)
       \<and> demoMode (performAll xs (snd (connectWallet e p (connectAll cs s))))
       \<and> requests (performAll xs (snd (connectWallet e p (connectAll cs s))))
           = requests (connectAll cs s)"
proof -
  have le: "connectionAttempts s + length cs \<le> maxConnectionAttempts s"
    using assms(3,5) by simp
  note run = connectAll_failing [OF assms(1,2,4,6) le]
  have a: "\<not> isConnecting (connectAll cs s)" using run by simp
  have b: "maxConnectionAttempts (connectAll cs s) \<le> connectionAttempts (connectAll cs s)"
    using run assms(3,5) by simp
  note next_call = connectWallet_exhausted [OF a b, of e p]
  have d: "demoMode (snd (connectWallet e p (connectAll cs s)))" using next_call by simp
  have i: "\<not> isConnecting (snd (connectWallet e p (connectAll cs s)))"
    using a b by (rule connectWallet_exhausted_idle)
  note later = demo_stays_all [OF d i, of xs]
  show ?thesis
    using run next_call later assms(3,5) by simp
qed

theorem exhausted_attempts_then_demo_witness:
  "\<not> isConnecting live_session \<and> \<not> demoMode live_session
   \<and> connectionAttempts live_session = 0
   \<and> length [(sample_env, sample_provider (Reject (JsError ''Internal error'' (Some (- 32603))))),
              (sample_env\<lparr>windowEthereum := None\<rparr>, sample_provider (Resolve [])),
              (sample_env, sample_provider (Resolve []))]
       = maxConnectionAttempts live_session
   \<and> list_all failing
        [(sample_env, sample_provider (Reject (JsError ''Internal error'' (Some (- 32603))))),
         (sample_env\<lparr>windowEthereum := None\<rparr>, sample_provider (Resolve [])),
         (sample_env, sample_provider (Resolve []))]
   \<and> connectionAttempts (connectAll
        [(sample_env, sample_provider (Reject (JsError ''Internal error'' (Some (- 32603))))),
         (sample_env\<lparr>windowEthereum := None\<rparr>, sample_provider (Resolve [])),
         (sample_env, sample_provider (Resolve []))] live_session) = 3
   \<and> demoMode (connectAll
        [(sample_env, sample_provider (Reject (JsError ''Internal error'' (Some (- 32603))))),
         (sample_env\<lparr>windowEthereum := None\<rparr>, sample_provider (Resolve [])),
         (sample_env, sample_provider (Resolve []))] live_session)
   \<and> demoMode (snd (connectWallet sample_env (sample_provider (Resolve [''0xABC'']))
        (connectAll
          [(sample_env, sample_provider (Reject (JsError ''Internal error'' (Some (- 32603))))),
           (sample_env\<lparr>windowEthereum := None\<rparr>, sample_provider (Resolve [])),
           (sample_env, sample_provider (Resolve []))] live_session)))
   \<and> requests (snd (connectWallet sample_env (sample_provider (Resolve [''0xABC'']))
        (connectAll
          [(sample_env, sample_provider (Reject (JsError ''Internal error'' (Some (- 32603))))),
           (sample_env\<lparr>windowEthereum := None\<rparr>, sample_provider (Resolve [])),
           (sample_env, sample_provider (Resolve []))] live_session)))
       = requests (connectAll
          [(sample_env, sample_provider (Reject (JsError ''Internal error'' (Some (- 32603))))),
           (sample_env\<lparr>windowEthereum := None\<rparr>, sample_provider (Resolve [])),
           (sample_env, sample_provider (Resolve []))] live_session)
   \<and> demoMode (performAll
        [ProviderDisconnect sample_env,
         Connect sample_env (sample_provider (Resolve [''0xABC''])),
         Disconnect sample_env,
         AccountsChanged sample_env [''0xDEF''],
         Connect sample_env (sample_provider (Resolve [''0xABC'']))]
        (snd (connectWallet sample_env (sample_provider (Resolve [''0xABC'']))
          (connectAll
            [(sample_env, sample_provider (Reject (JsError ''Internal error'' (Some (- 32603))))),
             (sample_env\<lparr>windowEthereum := None\<rparr>, sample_provider (Resolve [])),
             (sample_env, sample_provider (Resolve []))] live_session))))
   \<and> requests (performAll
        [ProviderDisconnect sample_env,
         Connect sample_env (sample_provider (Resolve [''0xABC''])),
         Disconnect sample_env,
         AccountsChanged sample_env [''0xDEF''],
         Connect sample_env (sample_provider (Resolve [''0xABC'']))]
        (snd (connectWallet sample_env (sample_provider (Resolve [''0xABC'']))
          (connectAll
            [(sample_env, sample_provider (Reject (JsError ''Internal error'' (Some (- 32603))))),
             (sample_env\<lparr>windowEthereum := None\<rparr>, sample_provider (Resolve [])),
             (sample_env, sample_provider (Resolve []))] live_session))))
       = requests (connectAll
          [(sample_env, sample_provider (Reject (JsError ''Internal error'' (Some (- 32603))))),
           (sample_env\<lparr>windowEthereum := None\<rparr>, sample_provider (Resolve [])),
           (sample_env, sample_provider (Resolve []))] live_session)"
proof -
  define cs where "cs = [(sample_env, sample_provider (Reject (JsError ''Internal error'' (Some (- 32603))))),
              (sample_env\<lparr>windowEthereum := None\<rparr>, sample_provider (Resolve [])),
              (sample_env, sample_provider (Resolve []))]"
  define xs where "xs = [ProviderDisconnect sample_env,
         Connect sample_env (sample_provider (Resolve [''0xABC''])),
         Disconnect sample_env,
         AccountsChanged sample_env [''0xDEF''],
         Connect sample_env (sample_provider (Resolve [''0xABC'']))]"
  have h1: "\<not> isConnecting live_session" and h2: "\<not> demoMode live_session"
    and h3: "connectionAttempts live_session = 0"
    by (simp_all add: live_session_def new_session_def)
  have h4: "cs \<noteq> []" by (simp add: cs_def)
  have h5: "length cs = maxConnectionAttempts live_session"
    by (simp add: cs_def live_session_def new_session_def)
  have f1: "failing (sample_env, sample_provider (Reject (JsError ''Internal error'' (Some (- 32603)))))"
    by code_simp
  have f2: "failing (sample_env\<lparr>windowEthereum := None\<rparr>, sample_provider (Resolve []))"
    by code_simp
  have f3: "failing (sample_env, sample_provider (Resolve []))"
    by code_simp
  have h6: "list_all failing cs" using f1 f2 f3 by (simp add: cs_def)
  have u: "\<not> userRejected (last cs)" unfolding cs_def by code_simp
  note t = exhausted_attempts_then_demo [OF h1 h2 h3 h4 h5 h6,
            of sample_env "sample_provider (Resolve [''0xABC''])" xs]
  have m: "maxConnectionAttempts live_session = 3"
    by (simp add: live_session_def new_session_def)
  have "\<not> isConnecting live_session \<and> \<not> demoMode live_session
   \<and> connectionAttempts live_session = 0
   \<and> length cs = maxConnectionAttempts live_session
   \<and> list_all failing cs
   \<and> connectionAttempts (connectAll cs live_session) = 3
   \<and> demoMode (connectAll cs live_session)
   \<and> demoMode (snd (connectWallet sample_env (sample_provider (Resolve [''0xABC'']))
        (connectAll cs live_session)))
   \<and> requests (snd (connectWallet sample_env (sample_provider (Resolve [''0xABC'']))
        (connectAll cs live_session)))
       = requests (connectAll cs live_session)
   \<and> demoMode (performAll xs (snd (connectWallet sample_env (sample_provider (Resolve [''0xABC'']))
        (connectAll cs live_session))))
   \<and> requests (performAll xs (snd (connectWallet sample_env (sample_provider (Resolve [''0xABC'']))
        (connectAll cs live_session))))
       = requests (connectAll cs live_session)"
    using t h1 h2 h3 h5 h6 u m by simp
  then show ?thesis unfolding cs_def xs_def .
qed

text \<open>
  Claim C5. Whenever \<open>loadBalance\<close> shows a balance (in demo mode always, in live mode
  when an account and a Web3 object are there), the balance it passes to
  \<open>updateBalanceUI\<close> is \<open>toFixed(3)\<close> of the specification's balance, which depends on the
  number of contributions and on the mode only: loading twice shows the same value again,
  a second session and environment with the same count and mode show the same value, and
  the demo value is the baseline 0.123 added to the live value \<open>count * 0.01\<close>. On these
  values \<open>toFixed(3)\<close> rounds nothing away: it prints the \<open>10 * count\<close> thousandths, plus
  123 in demo mode.
\<close>

theorem balance_pure:
  assumes "demoMode s \<or> (account s \<noteq> None \<and> account s \<noteq> Some [] \<and> web3 s)"
      and "demoMode s' \<or> (account s' \<noteq> None \<and> account s' \<noteq> Some [] \<and> web3 s')"
      and "getUserContributionCount e' = getUserContributionCount e"
      and "demoMode s' = demoMode s"
  shows "out (loadBalance e s)
           = out s @ [UpdateBalanceUI (if demoMode s then ''2.456'' else ''0.000'')
                        (toFixed3 (derivedBalance (getUserContributionCount e) (demoMode s)))]
       \<and> last (out (loadBalance e (loadBalance e s))) = last (out (loadBalance e s))
       \<and> last (out (loadBalance e' s')) = last (out (loadBalance e s))
       \<and> derivedBalance (getUserContributionCount e) True
           = 123 / 1000 + derivedBalance (getUserContributionCount e) False
       \<and> derivedBalance (getUserContributionCount e) False
           = of_nat (getUserContributionCount e) * (1 / 100)
       \<and> toFixed3 (derivedBalance (getUserContributionCount e) (demoMode s))
           = (let k = (if demoMode s then 123 else 0) + 10 * getUserContributionCount e;
                  f = k mod 1000
              in show_nat (k div 1000) @ ''.'' @
                 [char_of (48 + f div 100), char_of (48 + f div 10 mod 10),
                  char_of (48 + f mod 10)])"
proof -
  let ?x = "UpdateBalanceUI (if demoMode s then ''2.456'' else ''0.000'')
                        (toFixed3 (derivedBalance (getUserContributionCount e) (demoMode s)))"
  have a: "loadBalance e s = emit ?x s"
    using assms(1) by (rule loadBalance_computed)
  have c: "demoMode (emit ?x s)
           \<or> (account (emit ?x s) \<noteq> None \<and> account (emit ?x s) \<noteq> Some [] \<and> web3 (emit ?x s))"
    using assms(1) by (simp add: emit_def)
  have b: "loadBalance e (emit ?x s) = emit ?x (emit ?x s)"
    using loadBalance_computed [OF c, of e] by (simp add: emit_def)
  have d: "loadBalance e' s' = emit ?x s'"
    using loadBalance_computed [OF assms(2), of e'] assms(3,4) by simp
  have main: "out (loadBalance e s) = out s @ [?x]
       \<and> last (out (loadBalance e (loadBalance e s))) = last (out (loadBalance e s))
       \<and> last (out (loadBalance e' s')) = last (out (loadBalance e s))
       \<and> derivedBalance (getUserContributionCount e) True
           = 123 / 1000 + derivedBalance (getUserContributionCount e) False
       \<and> derivedBalance (getUserContributionCount e) False
           = of_nat (getUserContributionCount e) * (1 / 100)"
    by (simp add: a b d) (simp add: emit_def derivedBalance_def)
  from main toFixed3_derivedBalance [of "getUserContributionCount e" "demoMode s"]
  show ?thesis by blast
qed

theorem balance_pure_witness:
  "(demoMode (live_session\<lparr>account := Some ''0xABC'', isConnected := True\<rparr>)
     \<or> (account (live_session\<lparr>account := Some ''0xABC'', isConnected := True\<rparr>) \<noteq> None
        \<and> account (live_session\<lparr>account := Some ''0xABC'', isConnected := True\<rparr>) \<noteq> Some []
        \<and> web3 (live_session\<lparr>account := Some ''0xABC'', isConnected := True\<rparr>)))
   \<and> getUserContributionCount
        (sample_env\<lparr>utilsStorage := Some \<lparr>feedbacks = [''f9''], reports = [''r8'', ''r9'']\<rparr>\<rparr>)
       = getUserContributionCount sample_env
   \<and> out (loadBalance sample_env (live_session\<lparr>account := Some ''0xABC'', isConnected := True\<rparr>))
       = [UpdateBalanceUI ''0.000'' ''0.030'']
   \<and> last (out (loadBalance
                  (sample_env\<lparr>utilsStorage := Some \<lparr>feedbacks = [''f9''], reports = [''r8'', ''r9'']\<rparr>\<rparr>)
                  (live_session\<lparr>account := Some ''0xDEF'', isConnected := True,
                                 transactionHistory := [sample_tx 7]\<rparr>)))
       = UpdateBalanceUI ''0.000'' ''0.030''"
proof -
  define s where "s = live_session\<lparr>account := Some ''0xABC'', isConnected := True\<rparr>"
  define s' where "s' = live_session\<lparr>account := Some ''0xDEF'', isConnected := True,
                                 transactionHistory := [sample_tx 7]\<rparr>"
  define e' where "e' = sample_env\<lparr>utilsStorage := Some \<lparr>feedbacks = [''f9''], reports = [''r8'', ''r9'']\<rparr>\<rparr>"
  have h1: "demoMode s \<or> (account s \<noteq> None \<and> account s \<noteq> Some [] \<and> web3 s)"
    by (simp add: s_def live_session_def new_session_def)
  have h2: "demoMode s' \<or> (account s' \<noteq> None \<and> account s' \<noteq> Some [] \<and> web3 s')"
    by (simp add: s'_def live_session_def new_session_def)
  have h3: "getUserContributionCount e' = getUserContributionCount sample_env"
    by (simp add: e'_def getUserContributionCount_def sample_env_def)
  have h4: "demoMode s' = demoMode s"
    by (simp add: s_def s'_def live_session_def new_session_def)
  have d: "\<not> demoMode s" and o: "out s = []"
    by (simp_all add: s_def live_session_def new_session_def)
  have v: "toFixed3 (derivedBalance (getUserContributionCount sample_env) False) = ''0.030''"
    by code_simp
  note t = balance_pure [OF h1 h2 h3 h4]
  have "(demoMode s \<or> (account s \<noteq> None \<and> account s \<noteq> Some [] \<and> web3 s))
   \<and> getUserContributionCount e' = getUserContributionCount sample_env
   \<and> out (loadBalance sample_env s) = [UpdateBalanceUI ''0.000'' ''0.030'']
   \<and> last (out (loadBalance e' s')) = UpdateBalanceUI ''0.000'' ''0.030''"
    using t h1 h3 d o v by (simp del: Let_def)
  then show ?thesis unfolding s_def s'_def e'_def .
qed

text \<open>
  Claim C6. Let the session be connected with account \<open>a\<close> and no connection attempt be
  in flight. An \<open>accountsChanged\<close> event whose first account is \<open>a\<close> changes nothing but the
  console (no field, no call of \<open>updateUI\<close>, no balance shown). An event whose first account
  is another address \<open>b\<close> stores \<open>b\<close>, keeps the session connected and in its mode, repaints
  and shows the balance derived from the contribution count and the mode. The event
  listeners are installed only after \<open>this.web3\<close> is set (\<open>initializeMetaMask\<close>), which is
  the hypothesis \<open>demoMode s \<or> web3 s\<close>; an address is not the empty string.
\<close>

theorem accountsChanged_same_or_other:
  assumes "\<not> isConnecting s" and "isConnected s" and "account s = Some a"
      and "b \<noteq> a" and "b \<noteq> []" and "demoMode s \<or> web3 s"
  shows "handleAccountsChanged e (a # others) s = emit (Log ''Handling account change...'') s
       \<and> account (handleAccountsChanged e (b # others) s) = Some b
       \<and> isConnected (handleAccountsChanged e (b # others) s)
       \<and> demoMode (handleAccountsChanged e (b # others) s) = demoMode s
       \<and> out (handleAccountsChanged e (b # others) s)
           = out s @ [Log ''Handling account change...'', Log ''Account switched to:'', UpdateUI,
                      UpdateBalanceUI (if demoMode s then ''2.456'' else ''0.000'')
                        (toFixed3 (derivedBalance (getUserContributionCount e) (demoMode s)))]"
proof -
  let ?s1 = "s\<lparr>account := Some b, isConnected := True,
            out := out s @ [Log ''Handling account change...'', Log ''Account switched to:'', UpdateUI]\<rparr>"
  have ne: "account s \<noteq> Some b" using assms(3,4) by simp
  have h: "handleAccountsChanged e (b # others) s = loadBalance e ?s1"
    using assms(1) ne by (rule handleAccountsChanged_other)
  have c: "demoMode ?s1 \<or> (account ?s1 \<noteq> None \<and> account ?s1 \<noteq> Some [] \<and> web3 ?s1)"
    using assms(5,6) by auto
  show ?thesis
    using handleAccountsChanged_same [OF assms(1,3)] loadBalance_computed [OF c, of e]
    by (simp add: h) (simp add: emit_def)
qed

theorem accountsChanged_same_or_other_witness:
  "\<not> isConnecting (live_session\<lparr>account := Some ''0xABC'', isConnected := True\<rparr>)
   \<and> isConnected (live_session\<lparr>account := Some ''0xABC'', isConnected := True\<rparr>)
   \<and> account (live_session\<lparr>account := Some ''0xABC'', isConnected := True\<rparr>) = Some ''0xABC''
   \<and> ''0xDEF'' \<noteq> ''0xABC'' \<and> ''0xDEF'' \<noteq> []
   \<and> (demoMode (live_session\<lparr>account := Some ''0xABC'', isConnected := True\<rparr>)
       \<or> web3 (live_session\<lparr>account := Some ''0xABC'', isConnected := True\<rparr>))
   \<and> handleAccountsChanged sample_env [''0xABC'']
        (live_session\<lparr>account := Some ''0xABC'', isConnected := True\<rparr>)
       = emit (Log ''Handling account change...'')
           (live_session\<lparr>account := Some ''0xABC'', isConnected := True\<rparr>)
   \<and> account (handleAccountsChanged sample_env [''0xDEF'']
                (live_session\<lparr>account := Some ''0xABC'', isConnected := True\<rparr>)) = Some ''0xDEF''
   \<and> out (handleAccountsChanged sample_env [''0xDEF'']
                (live_session\<lparr>account := Some ''0xABC'', isConnected := True\<rparr>))
       = [Log ''Handling account change...'', Log ''Account switched to:'', UpdateUI,
          UpdateBalanceUI ''0.000'' ''0.030'']"
proof -
  define s where "s = live_session\<lparr>account := Some ''0xABC'', isConnected := True\<rparr>"
  have h1: "\<not> isConnecting s" and h2: "isConnected s" and h3: "account s = Some ''0xABC''"
    and h6: "demoMode s \<or> web3 s" and d: "\<not> demoMode s" and o: "out s = []"
    by (simp_all add: s_def live_session_def new_session_def)
  have h4: "''0xDEF'' \<noteq> ''0xABC''" and h5: "''0xDEF'' \<noteq> []" by simp_all
  have v: "toFixed3 (derivedBalance (getUserContributionCount sample_env) False) = ''0.030''"
    by code_simp
  note t = accountsChanged_same_or_other [OF h1 h2 h3 h4 h5 h6, where e = sample_env and others = "[]"]
  have "\<not> isConnecting s \<and> isConnected s \<and> account s = Some ''0xABC''
   \<and> ''0xDEF'' \<noteq> ''0xABC'' \<and> ''0xDEF'' \<noteq> []
   \<and> (demoMode s \<or> web3 s)
   \<and> handleAccountsChanged sample_env [''0xABC''] s = emit (Log ''Handling account change...'') s
   \<and> account (handleAccountsChanged sample_env [''0xDEF''] s) = Some ''0xDEF''
   \<and> out (handleAccountsChanged sample_env [''0xDEF''] s)
       = [Log ''Handling account change...'', Log ''Account switched to:'', UpdateUI,
          UpdateBalanceUI ''0.000'' ''0.030'']"
    using t h1 h2 h3 h6 d o v by simp
  then show ?thesis unfolding s_def .
qed

text \<open>
  Claim C7, as the specification states it: every attempt shows the connecting state
  exactly once. A live attempt that finds MetaMask unavailable (here \<open>window.ethereum\<close>
  reports \<open>isConnecting\<close>) is counted, throws before \<open>updateConnectingUI\<close> is reached, and
  ends in the \<open>catch\<close> block: the connecting state is not shown and no connecting notice
  is sent.
\<close>

theorem connect_without_metamask_shows_nothing:
  "\<not> isConnecting live_session \<and> \<not> demoMode live_session
   \<and> connectionAttempts live_session = 0
   \<and> \<not> isMetaMaskAvailable
         (sample_env\<lparr>windowEthereum := Some \<lparr>isMetaMask = True, providerConnecting = True\<rparr>\<rparr>)
   \<and> connectWallet
         (sample_env\<lparr>windowEthereum := Some \<lparr>isMetaMask = True, providerConnecting = True\<rparr>\<rparr>)
         (sample_provider (Resolve [''0xABC''])) live_session
       = (False,
          live_session\<lparr>connectionAttempts := 1,
            out := [Log ''Connecting to MetaMask (attempt 1/3)...'',
                    Log ''Wallet connection error:'',
                    Notification [Str ''Connection failed, please try again''] ''error'' 5000,
                    UpdateUI]\<rparr>)
   \<and> shown_connecting (snd (connectWallet
         (sample_env\<lparr>windowEthereum := Some \<lparr>isMetaMask = True, providerConnecting = True\<rparr>\<rparr>)
         (sample_provider (Resolve [''0xABC''])) live_session)) = 0
   \<and> notified_connecting (snd (connectWallet
         (sample_env\<lparr>windowEthereum := Some \<lparr>isMetaMask = True, providerConnecting = True\<rparr>\<rparr>)
         (sample_provider (Resolve [''0xABC''])) live_session)) = 0"
  by code_simp

text \<open>
  Claim C7, amended. A call of \<open>connectWallet\<close> made while no attempt is in flight calls
  \<open>updateConnectingUI\<close> exactly once when it starts the demo connection or when it reaches
  the request to the provider, and not at all when the attempts are used up or MetaMask
  is unavailable. The notice \<open>Connecting demo wallet...\<close> is sent once by a demo attempt
  (if the notifier exists) and never by a live attempt.
\<close>

theorem connecting_shown_per_attempt:
  assumes "\<not> isConnecting s"
  shows "shown_connecting (snd (connectWallet e p s))
         = shown_connecting s
           + (if demoMode s then 1
              else if maxConnectionAttempts s \<le> connectionAttempts s then 0
              else if isMetaMaskAvailable e then 1 else 0)
      \<and> notified_connecting (snd (connectWallet e p s))
         = notified_connecting s + (if demoMode s \<and> hasShowNotification e then 1 else 0)"
proof -
  consider (demo) "demoMode s"
    | (exhausted) "\<not> demoMode s" "maxConnectionAttempts s \<le> connectionAttempts s"
    | (missing) "\<not> demoMode s" "connectionAttempts s < maxConnectionAttempts s"
                "\<not> isMetaMaskAvailable e"
    | (asked) "\<not> demoMode s" "connectionAttempts s < maxConnectionAttempts s"
              "isMetaMaskAvailable e"
    by fastforce
  then show ?thesis
  proof cases
    case demo
    then show ?thesis using quiet_demo [OF demo assms, of e p]
      by (simp add: shown_connecting_def notified_connecting_def)
  next
    case exhausted
    have "snd (connectWallet e p s)
          = enableDemoMode (emit (Log ''Maximum connection attempts reached, using demo mode'') s)"
      using assms exhausted by (simp add: connectWallet_def connectWallet_start_def)
    then show ?thesis using exhausted
      by (simp add: shown_connecting_def notified_connecting_def quiet_enableDemoMode quiet_emit
            connecting_notice_def)
  next
    case missing
    define s2 where "s2 = emit (Log (''Connecting to MetaMask (attempt '' @
                               show_nat (connectionAttempts s + 1) @ ''/'' @
                               show_nat (maxConnectionAttempts s) @ '')...''))
               (s\<lparr>isConnecting := True, connectionAttempts := connectionAttempts s + 1\<rparr>)"
    have "connectWallet e p s = connectWallet_catch e (JsError ''MetaMask not available'' None) s2"
      using assms missing
      by (simp add: connectWallet_def connectWallet_start_def Let_def s2_def split: prod.splits)
    moreover have "count_list (out s2) UpdateConnectingUI = count_list (out s) UpdateConnectingUI"
      "count_list (out s2) connecting_notice = count_list (out s) connecting_notice"
      by (simp_all add: s2_def quiet_emit connecting_notice_def)
    ultimately show ?thesis using missing
      by (simp add: shown_connecting_def notified_connecting_def quiet_catch)
  next
    case asked
    define s3 where "s3 = emit (ProviderRequest ''eth_requestAccounts'')
       (updateConnectingUI (emit (Log (''Connecting to MetaMask (attempt '' @
                               show_nat (connectionAttempts s + 1) @ ''/'' @
                               show_nat (maxConnectionAttempts s) @ '')...''))
               (s\<lparr>isConnecting := True, connectionAttempts := connectionAttempts s + 1\<rparr>)))"
    have "connectWallet e p s = connectWallet_resume e p s3"
      using assms asked
      by (simp add: connectWallet_def connectWallet_start_def Let_def s3_def)
    moreover have "count_list (out s3) UpdateConnectingUI = count_list (out s) UpdateConnectingUI + 1"
      "count_list (out s3) connecting_notice = count_list (out s) connecting_notice"
      by (simp_all add: s3_def quiet_emit paint_defs connecting_notice_def)
    ultimately show ?thesis using asked
      by (simp add: shown_connecting_def notified_connecting_def quiet_resume)
  qed
qed

theorem connecting_shown_per_attempt_witness:
  "\<not> isConnecting live_session
   \<and> shown_connecting (snd (connectWallet sample_env (sample_provider (Resolve [''0xABC'']))
                               live_session)) = 1
   \<and> notified_connecting (snd (connectWallet sample_env (sample_provider (Resolve [''0xABC'']))
                                  live_session)) = 0"
proof -
  have h: "\<not> isConnecting live_session" and d: "\<not> demoMode live_session"
    and c: "connectionAttempts live_session = 0" and m: "maxConnectionAttempts live_session = 3"
    and o: "out live_session = []"
    by (simp_all add: live_session_def new_session_def)
  have a: "isMetaMaskAvailable sample_env" by code_simp
  show ?thesis
    using connecting_shown_per_attempt [OF h, of sample_env "sample_provider (Resolve [''0xABC''])"]
      h d c m a
    by (simp add: shown_connecting_def notified_connecting_def o)
qed

text \<open>
  Claim C8. \<open>disconnectWallet\<close> called while a connection attempt is in flight changes no
  field and reports the conflict on the console. Otherwise it clears the account, leaves
  the session disconnected with the attempt counter at 0, and (the notifier existing)
  ends with the notification \<open>Demo wallet disconnected\<close> or \<open>Wallet disconnected\<close>, by the
  mode that was torn down.
\<close>

theorem disconnectWallet_contract:
  "(isConnecting s \<longrightarrow>
      disconnectWallet e s = emit (Log ''Cannot disconnect while connecting'') s)
   \<and> (\<not> isConnecting s \<longrightarrow>
        account (disconnectWallet e s) = None
      \<and> \<not> isConnected (disconnectWallet e s)
      \<and> \<not> isConnecting (disconnectWallet e s)
      \<and> connectionAttempts (disconnectWallet e s) = 0
      \<and> (hasShowNotification e \<longrightarrow>
            out (disconnectWallet e s)
              = out s @ [Log ''Disconnecting wallet...'', UpdateUI,
                         Notification [Str ((if demoMode s then ''Demo wallet'' else ''Wallet'')
                                            @ '' disconnected'')] ''info'' 5000]))"
  by (simp add: disconnectWallet_connecting disconnectWallet_idle)

theorem disconnectWallet_contract_witness:
  "isConnecting (live_session\<lparr>isConnecting := True\<rparr>)
   \<and> disconnectWallet sample_env (live_session\<lparr>isConnecting := True\<rparr>)
       = live_session\<lparr>isConnecting := True, out := [Log ''Cannot disconnect while connecting'']\<rparr>
   \<and> \<not> isConnecting (live_session\<lparr>demoMode := True, isConnected := True, connectionAttempts := 3,
                                    account := Some ''0x742d35Cc6634C0532925a3b8D98d27f65d3c3eA6''\<rparr>)
   \<and> hasShowNotification sample_env
   \<and> account (disconnectWallet sample_env
        (live_session\<lparr>demoMode := True, isConnected := True, connectionAttempts := 3,
                       account := Some ''0x742d35Cc6634C0532925a3b8D98d27f65d3c3eA6''\<rparr>)) = None
   \<and> connectionAttempts (disconnectWallet sample_env
        (live_session\<lparr>demoMode := True, isConnected := True, connectionAttempts := 3,
                       account := Some ''0x742d35Cc6634C0532925a3b8D98d27f65d3c3eA6''\<rparr>)) = 0
   \<and> out (disconnectWallet sample_env
        (live_session\<lparr>demoMode := True, isConnected := True, connectionAttempts := 3,
                       account := Some ''0x742d35Cc6634C0532925a3b8D98d27f65d3c3eA6''\<rparr>))
       = [Log ''Disconnecting wallet...'', UpdateUI,
          Notification [Str ''Demo wallet disconnected''] ''info'' 5000]"
proof -
  define s1 where "s1 = live_session\<lparr>isConnecting := True\<rparr>"
  define s2 where "s2 = live_session\<lparr>demoMode := True, isConnected := True, connectionAttempts := 3,
                                    account := Some ''0x742d35Cc6634C0532925a3b8D98d27f65d3c3eA6''\<rparr>"
  have c1: "isConnecting s1" and o1: "out s1 = []"
    by (simp_all add: s1_def live_session_def new_session_def)
  have c2: "\<not> isConnecting s2" and d2: "demoMode s2" and o2: "out s2 = []"
    by (simp_all add: s2_def live_session_def new_session_def)
  have n: "hasShowNotification sample_env" by (simp add: sample_env_def)
  have "isConnecting s1
   \<and> disconnectWallet sample_env s1 = s1\<lparr>out := [Log ''Cannot disconnect while connecting'']\<rparr>
   \<and> \<not> isConnecting s2 \<and> hasShowNotification sample_env
   \<and> account (disconnectWallet sample_env s2) = None
   \<and> connectionAttempts (disconnectWallet sample_env s2) = 0
   \<and> out (disconnectWallet sample_env s2)
       = [Log ''Disconnecting wallet...'', UpdateUI,
          Notification [Str ''Demo wallet disconnected''] ''info'' 5000]"
    using disconnectWallet_contract [of s1 sample_env] disconnectWallet_contract [of s2 sample_env]
      c1 c2 d2 n
    by (simp add: emit_def o1 o2)
  then show ?thesis unfolding s1_def s2_def by simp
qed

text \<open>
  Claim C9. \<open>disconnectWallet\<close> leaves \<open>demoMode\<close>, the transaction log and
  \<open>isInitialized\<close> as they are: the session after it differs from the session before in
  the account, the connected flag, the attempt counter and the trace at most. So a session
  in demo mode is in demo mode after disconnecting, and the next \<open>connectWallet\<close> takes the
  demo path: it returns \<open>true\<close>, connects the demo account and asks the provider nothing.
\<close>

theorem disconnectWallet_frame:
  "demoMode (disconnectWallet e s) = demoMode s
   \<and> transactionHistory (disconnectWallet e s) = transactionHistory s
   \<and> isInitialized (disconnectWallet e s) = isInitialized s
   \<and> (\<exists>a c n tr. disconnectWallet e s
          = s\<lparr>account := a, isConnected := c, connectionAttempts := n, out := tr\<rparr>)
   \<and> (demoMode s \<and> \<not> isConnecting s \<longrightarrow>
        fst (connectWallet e' p (disconnectWallet e s))
      \<and> demoMode (snd (connectWallet e' p (disconnectWallet e s)))
      \<and> account (snd (connectWallet e' p (disconnectWallet e s)))
          = Some ''0x742d35Cc6634C0532925a3b8D98d27f65d3c3eA6''
      \<and> isConnected (snd (connectWallet e' p (disconnectWallet e s)))
      \<and> requests (snd (connectWallet e' p (disconnectWallet e s))) = requests s)"
proof -
  have f: "\<exists>a c n tr. disconnectWallet e s
          = s\<lparr>account := a, isConnected := c, connectionAttempts := n, out := tr\<rparr>"
  proof (cases "isConnecting s")
    case True
    have "disconnectWallet e s
          = s\<lparr>account := account s, isConnected := isConnected s,
               connectionAttempts := connectionAttempts s,
               out := out s @ [Log ''Cannot disconnect while connecting'']\<rparr>"
      using True by (simp add: disconnectWallet_connecting emit_def)
    then show ?thesis by blast
  next
    case False
    from disconnectWallet_idle [OF False] show ?thesis by blast
  qed
  then obtain a c n tr where eq: "disconnectWallet e s
          = s\<lparr>account := a, isConnected := c, connectionAttempts := n, out := tr\<rparr>" by blast
  have g: "demoMode (disconnectWallet e s) = demoMode s"
     "transactionHistory (disconnectWallet e s) = transactionHistory s"
     "isInitialized (disconnectWallet e s) = isInitialized s"
    by (simp_all add: eq)
  have h: "demoMode s \<and> \<not> isConnecting s \<longrightarrow>
        fst (connectWallet e' p (disconnectWallet e s))
      \<and> demoMode (snd (connectWallet e' p (disconnectWallet e s)))
      \<and> account (snd (connectWallet e' p (disconnectWallet e s)))
          = Some ''0x742d35Cc6634C0532925a3b8D98d27f65d3c3eA6''
      \<and> isConnected (snd (connectWallet e' p (disconnectWallet e s)))
      \<and> requests (snd (connectWallet e' p (disconnectWallet e s))) = requests s"
  proof
    assume a: "demoMode s \<and> \<not> isConnecting s"
    let ?d = "disconnectWallet e s"
    have d1: "demoMode ?d" using a g by simp
    have d2: "\<not> isConnecting ?d" using a by (simp add: disconnectWallet_idle)
    have d3: "requests ?d = requests s"
      using a by (simp add: disconnectWallet_idle requests_def is_request_def)
    from connectWallet_demo [OF d1 d2, of e' p] have
      c1: "connectWallet e' p ?d
     = (True, ?d\<lparr>account := Some ''0x742d35Cc6634C0532925a3b8D98d27f65d3c3eA6'',
                isConnected := True,
                out := out (snd (connectWallet e' p ?d))\<rparr>)"
      and c2: "requests (snd (connectWallet e' p ?d)) = requests ?d" by simp_all
    have "fst (connectWallet e' p ?d)" by (subst c1) simp
    moreover have "demoMode (snd (connectWallet e' p ?d))" by (subst c1) (simp add: d1)
    moreover have "account (snd (connectWallet e' p ?d))
                   = Some ''0x742d35Cc6634C0532925a3b8D98d27f65d3c3eA6''"
      by (subst c1) simp
    moreover have "isConnected (snd (connectWallet e' p ?d))" by (subst c1) simp
    ultimately show "fst (connectWallet e' p ?d)
      \<and> demoMode (snd (connectWallet e' p ?d))
      \<and> account (snd (connectWallet e' p ?d))
          = Some ''0x742d35Cc6634C0532925a3b8D98d27f65d3c3eA6''
      \<and> isConnected (snd (connectWallet e' p ?d))
      \<and> requests (snd (connectWallet e' p ?d)) = requests s"
      using c2 d3 by simp
  qed
  from f g h show ?thesis by blast
qed

theorem disconnectWallet_frame_witness:
  "demoMode (live_session\<lparr>demoMode := True, isConnected := True, connectionAttempts := 3,
                          transactionHistory := [sample_tx 7],
                          account := Some ''0x742d35Cc6634C0532925a3b8D98d27f65d3c3eA6''\<rparr>)
   \<and> \<not> isConnecting (live_session\<lparr>demoMode := True, isConnected := True, connectionAttempts := 3,
                          transactionHistory := [sample_tx 7],
                          account := Some ''0x742d35Cc6634C0532925a3b8D98d27f65d3c3eA6''\<rparr>)
   \<and> demoMode (disconnectWallet sample_env
        (live_session\<lparr>demoMode := True, isConnected := True, connectionAttempts := 3,
                       transactionHistory := [sample_tx 7],
                       account := Some ''0x742d35Cc6634C0532925a3b8D98d27f65d3c3eA6''\<rparr>))
   \<and> transactionHistory (disconnectWallet sample_env
        (live_session\<lparr>demoMode := True, isConnected := True, connectionAttempts := 3,
                       transactionHistory := [sample_tx 7],
                       account := Some ''0x742d35Cc6634C0532925a3b8D98d27f65d3c3eA6''\<rparr>))
       = [sample_tx 7]
   \<and> fst (connectWallet sample_env (sample_provider (Resolve [''0xABC'']))
        (disconnectWallet sample_env
          (live_session\<lparr>demoMode := True, isConnected := True, connectionAttempts := 3,
                         transactionHistory := [sample_tx 7],
                         account := Some ''0x742d35Cc6634C0532925a3b8D98d27f65d3c3eA6''\<rparr>)))
   \<and> requests (snd (connectWallet sample_env (sample_provider (Resolve [''0xABC'']))
        (disconnectWallet sample_env
          (live_session\<lparr>demoMode := True, isConnected := True, connectionAttempts := 3,
                         transactionHistory := [sample_tx 7],
                         account := Some ''0x742d35Cc6634C0532925a3b8D98d27f65d3c3eA6''\<rparr>)))) = []"
proof -
  define s where "s = live_session\<lparr>demoMode := True, isConnected := True, connectionAttempts := 3,
                          transactionHistory := [sample_tx 7],
                          account := Some ''0x742d35Cc6634C0532925a3b8D98d27f65d3c3eA6''\<rparr>"
  have d: "demoMode s" and c: "\<not> isConnecting s" and t: "transactionHistory s = [sample_tx 7]"
    and r: "requests s = []"
    by (simp_all add: s_def live_session_def new_session_def requests_def)
  have "demoMode s \<and> \<not> isConnecting s
   \<and> demoMode (disconnectWallet sample_env s)
   \<and> transactionHistory (disconnectWallet sample_env s) = [sample_tx 7]
   \<and> fst (connectWallet sample_env (sample_provider (Resolve [''0xABC'']))
        (disconnectWallet sample_env s))
   \<and> requests (snd (connectWallet sample_env (sample_provider (Resolve [''0xABC'']))
        (disconnectWallet sample_env s))) = []"
    using disconnectWallet_frame [of sample_env s sample_env "sample_provider (Resolve [''0xABC''])"]
      d c t r
    by simp
  then show ?thesis unfolding s_def .
qed

text \<open>
  Claim C10. Called without an amount, as \<open>sendBlockchainReward\<close> in src/js/app.js calls
  it (\<open>web3Manager.sendReward(web3Manager.account)\<close>), \<open>sendReward\<close> behaves in every
  session state as with the amount 0.01: the record put at the front of the log has the
  amount \<open>1 / 100\<close> and the returned hash, and the notification names \<open>1 / 100\<close>.
\<close>

theorem sendReward_default_amount:
  "\<exists>tx. transactionHistory (snd (sendReward e r recipientAddress None s))
           = tx # take 49 (transactionHistory s)
        \<and> amount tx = 1 / 100
        \<and> hash tx = fst (sendReward e r recipientAddress None s)
        \<and> sendReward e r recipientAddress None s
            = sendReward e r recipientAddress (Some (1 / 100)) s
        \<and> (hasShowNotification e \<longrightarrow>
             (\<exists>before after ty d rest. out (snd (sendReward e r recipientAddress None s))
                 = out s @ (if utilsStorage e \<noteq> None
                            then [StorageSet ''transaction_history'' (tx # take 49 (transactionHistory s))]
                            else [])
                   @ Notification [Str before, Num (1 / 100), Str after] ty d # rest))"
  by (simp add: sendReward_def simulateReward_def sendDemoReward_def trackReward_def Let_def
        notify_def emit_def recordTransaction_def)

theorem sendReward_default_amount_witness:
  "hasShowNotification sample_env
   \<and> amount (hd (transactionHistory
        (snd (sendReward sample_env sample_entropy (Some ''0xABC'') None
               (live_session\<lparr>account := Some ''0xABC'', isConnected := True\<rparr>))))) = 1 / 100
   \<and> hash (hd (transactionHistory
        (snd (sendReward sample_env sample_entropy (Some ''0xABC'') None
               (live_session\<lparr>account := Some ''0xABC'', isConnected := True\<rparr>)))))
       = fst (sendReward sample_env sample_entropy (Some ''0xABC'') None
               (live_session\<lparr>account := Some ''0xABC'', isConnected := True\<rparr>))
   \<and> sendReward sample_env sample_entropy (Some ''0xABC'') None
         (live_session\<lparr>account := Some ''0xABC'', isConnected := True\<rparr>)
       = sendReward sample_env sample_entropy (Some ''0xABC'') (Some (1 / 100))
           (live_session\<lparr>account := Some ''0xABC'', isConnected := True\<rparr>)"
proof -
  define s where "s = live_session\<lparr>account := Some ''0xABC'', isConnected := True\<rparr>"
  have n: "hasShowNotification sample_env" by (simp add: sample_env_def)
  from sendReward_default_amount [of sample_env sample_entropy "Some ''0xABC''" s]
  obtain tx where
    a: "transactionHistory (snd (sendReward sample_env sample_entropy (Some ''0xABC'') None s))
           = tx # take 49 (transactionHistory s)"
    and b: "amount tx = 1 / 100"
    and h: "hash tx = fst (sendReward sample_env sample_entropy (Some ''0xABC'') None s)"
    and c: "sendReward sample_env sample_entropy (Some ''0xABC'') None s
            = sendReward sample_env sample_entropy (Some ''0xABC'') (Some (1 / 100)) s"
    by blast
  have a': "hd (transactionHistory (snd (sendReward sample_env sample_entropy (Some ''0xABC'') None s)))
            = tx"
    by (simp only: a list.sel)
  have "hasShowNotification sample_env
   \<and> amount (hd (transactionHistory
        (snd (sendReward sample_env sample_entropy (Some ''0xABC'') None s)))) = 1 / 100
   \<and> hash (hd (transactionHistory
        (snd (sendReward sample_env sample_entropy (Some ''0xABC'') None s))))
       = fst (sendReward sample_env sample_entropy (Some ''0xABC'') None s)
   \<and> sendReward sample_env sample_entropy (Some ''0xABC'') None s
       = sendReward sample_env sample_entropy (Some ''0xABC'') (Some (1 / 100)) s"
    unfolding a' using n b h c by blast
  then show ?thesis unfolding s_def .
qed

end
